theory Spec2Isabelle
  imports Main
begin

section \<open>Data model\<close>

text \<open>
  \<^verbatim>\<open>models.Package\<close> (pkg/models/models.go). Go strings are byte sequences, so a
  string is a \<^typ>\<open>char list\<close>; the zero value of a string field is the empty string.
\<close>

record Package =
  Name :: string
  Description :: string
  CurrentVersion :: string
  AvailableVersion :: string
  NeedsUpdate :: bool
  IsSecurityUpdate :: bool

text \<open>
  A Go \<^verbatim>\<open>map[string]V\<close> is a partial function. Reading a missing key of a
  \<^verbatim>\<open>map[string]bool\<close> gives \<^verbatim>\<open>false\<close>, of a \<^verbatim>\<open>map[string]string\<close> the empty
  string.
\<close>

definition lookupBool :: "(string \<rightharpoonup> bool) \<Rightarrow> string \<Rightarrow> bool" where
  "lookupBool m k = (case m k of None \<Rightarrow> False | Some b \<Rightarrow> b)"

definition lookupString :: "(string \<rightharpoonup> string) \<Rightarrow> string \<Rightarrow> string" where
  "lookupString m k = (case m k of None \<Rightarrow> [] | Some v \<Rightarrow> v)"

text \<open>
  \<^verbatim>\<open>for k, v := range m\<close> visits every key of the map once, in an order the language
  leaves open. The order of one run is a list of the keys; a property of the code has to
  hold for each such list.
\<close>

definition rangeOrder :: "(string \<rightharpoonup> 'v) \<Rightarrow> string list \<Rightarrow> bool" where
  "rangeOrder m ks = (distinct ks \<and> set ks = dom m)"

section \<open>The Go library functions the parsers call\<close>

subsection \<open>Package strings\<close>

text \<open>
  Each function is the one of Go's \<^verbatim>\<open>strings\<close> package with the same name, on byte
  strings. \<^verbatim>\<open>CutPrefix\<close> returns \<^verbatim>\<open>(after, found)\<close>: here \<open>Some after\<close> when found.
\<close>

definition HasPrefix :: "string \<Rightarrow> string \<Rightarrow> bool" where
  "HasPrefix s prefix = (take (length prefix) s = prefix)"

definition HasSuffix :: "string \<Rightarrow> string \<Rightarrow> bool" where
  "HasSuffix s suffix =
     (length suffix \<le> length s \<and> drop (length s - length suffix) s = suffix)"

definition CutPrefix :: "string \<Rightarrow> string \<Rightarrow> string option" where
  "CutPrefix s prefix = (if HasPrefix s prefix then Some (drop (length prefix) s) else None)"

definition TrimSuffix :: "string \<Rightarrow> string \<Rightarrow> string" where
  "TrimSuffix s suffix =
     (if HasSuffix s suffix then take (length s - length suffix) s else s)"

text \<open>
  \<^verbatim>\<open>Trim(s, cutset)\<close> for a cutset of ASCII characters (the code's only cutset is
  \<^verbatim>\<open>"[]"\<close>): every leading and every trailing byte of the cutset is removed.
\<close>

definition Trim :: "string \<Rightarrow> string \<Rightarrow> string" where
  "Trim s cutset =
     rev (dropWhile (\<lambda>c. c \<in> set cutset) (rev (dropWhile (\<lambda>c. c \<in> set cutset) s)))"

fun Contains :: "string \<Rightarrow> string \<Rightarrow> bool" where
  "Contains [] substr = (substr = [])"
| "Contains (c # s) substr = (HasPrefix (c # s) substr \<or> Contains s substr)"

text \<open>\<^verbatim>\<open>Cut(s, sep)\<close> splits around the first instance of \<open>sep\<close>; \<open>None\<close> when there is none.\<close>

fun Cut :: "string \<Rightarrow> string \<Rightarrow> (string \<times> string) option" where
  "Cut [] sep = (if sep = [] then Some ([], []) else None)"
| "Cut (c # s) sep =
     (if HasPrefix (c # s) sep then Some ([], drop (length sep) (c # s))
      else (case Cut s sep of
              None \<Rightarrow> None
            | Some (before, after) \<Rightarrow> Some (c # before, after)))"

text \<open>
  \<^verbatim>\<open>SplitN(s, sep, n)\<close> for a non-empty separator and \<open>n \<ge> 0\<close>: at most \<open>n\<close> substrings,
  the last one the unsplit remainder. \<^verbatim>\<open>Split\<close> (and the iterator \<^verbatim>\<open>SplitSeq\<close>) puts no
  bound on the count; a string of \<open>k\<close> bytes has at most \<open>k + 1\<close> pieces.
\<close>

fun SplitN :: "string \<Rightarrow> string \<Rightarrow> nat \<Rightarrow> string list" where
  "SplitN s sep 0 = []"
| "SplitN s sep (Suc 0) = [s]"
| "SplitN s sep (Suc (Suc n)) =
     (case Cut s sep of
        None \<Rightarrow> [s]
      | Some (before, after) \<Rightarrow> before # SplitN after sep (Suc n))"

definition Split :: "string \<Rightarrow> string \<Rightarrow> string list" where
  "Split s sep = SplitN s sep (Suc (length s))"

fun Join :: "string list \<Rightarrow> string \<Rightarrow> string" where
  "Join [] sep = []"
| "Join [e] sep = e"
| "Join (e # es) sep = e @ sep @ Join es sep"

text \<open>\<^verbatim>\<open>LastIndex\<close>: the index of the last instance of \<open>substr\<close> in \<open>s\<close>, or \<open>-1\<close>.\<close>

definition LastIndex :: "string \<Rightarrow> string \<Rightarrow> int" where
  "LastIndex s substr =
     (case filter (\<lambda>i. HasPrefix (drop i s) substr) (rev [0..<Suc (length s)]) of
        [] \<Rightarrow> - 1
      | i # _ \<Rightarrow> int i)"

text \<open>
  White space, as \<^verbatim>\<open>unicode.IsSpace\<close> defines it: six ASCII characters, and the runes
  U+0085, U+00A0, U+1680, U+2000 to U+200A, U+2028, U+2029, U+202F, U+205F and U+3000,
  which a Go string holds in UTF-8. The first byte of each encoding is a leading byte,
  which no other rune's encoding contains after its first position, so a scan by bytes
  finds the white space runes where Go's scan by runes does.
\<close>

definition asciiSpace :: "char \<Rightarrow> bool" where
  "asciiSpace c =
     (c = CHR 0x09 \<or> c = CHR 0x0A \<or> c = CHR 0x0B \<or> c = CHR 0x0C \<or> c = CHR 0x0D \<or>
      c = CHR '' '')"

definition unicodeSpaces :: "string list" where
  "unicodeSpaces =
     [[CHR 0xC2, CHR 0x85], [CHR 0xC2, CHR 0xA0], [CHR 0xE1, CHR 0x9A, CHR 0x80],
      [CHR 0xE2, CHR 0x80, CHR 0x80], [CHR 0xE2, CHR 0x80, CHR 0x81],
      [CHR 0xE2, CHR 0x80, CHR 0x82], [CHR 0xE2, CHR 0x80, CHR 0x83],
      [CHR 0xE2, CHR 0x80, CHR 0x84], [CHR 0xE2, CHR 0x80, CHR 0x85],
      [CHR 0xE2, CHR 0x80, CHR 0x86], [CHR 0xE2, CHR 0x80, CHR 0x87],
      [CHR 0xE2, CHR 0x80, CHR 0x88], [CHR 0xE2, CHR 0x80, CHR 0x89],
      [CHR 0xE2, CHR 0x80, CHR 0x8A], [CHR 0xE2, CHR 0x80, CHR 0xA8],
      [CHR 0xE2, CHR 0x80, CHR 0xA9], [CHR 0xE2, CHR 0x80, CHR 0xAF],
      [CHR 0xE2, CHR 0x81, CHR 0x9F], [CHR 0xE3, CHR 0x80, CHR 0x80]]"

text \<open>The number of bytes of the white space rune a string starts (or ends) with; 0 if none.\<close>

definition spaceWidth :: "string \<Rightarrow> nat" where
  "spaceWidth s =
     (case s of
        [] \<Rightarrow> 0
      | c # _ \<Rightarrow>
          if asciiSpace c then 1
          else if (of_char c :: nat) < 128 then 0
          else (case find (HasPrefix s) unicodeSpaces of Some e \<Rightarrow> length e | None \<Rightarrow> 0))"

definition spaceWidthLast :: "string \<Rightarrow> nat" where
  "spaceWidthLast s =
     (if s = [] then 0
      else if asciiSpace (last s) then 1
      else if (of_char (last s) :: nat) < 128 then 0
      else (case find (HasSuffix s) unicodeSpaces of Some e \<Rightarrow> length e | None \<Rightarrow> 0))"

function TrimLeftSpace :: "string \<Rightarrow> string" where
  "TrimLeftSpace s = (if spaceWidth s = 0 then s else TrimLeftSpace (drop (spaceWidth s) s))"
  by pat_completeness auto
termination
  by (relation "measure length") (auto simp: spaceWidth_def split: list.splits)

function TrimRightSpace :: "string \<Rightarrow> string" where
  "TrimRightSpace s =
     (if spaceWidthLast s = 0 then s
      else TrimRightSpace (take (length s - spaceWidthLast s) s))"
  by pat_completeness auto
termination
  by (relation "measure length") (auto simp: spaceWidthLast_def split: if_splits)

definition TrimSpace :: "string \<Rightarrow> string" where
  "TrimSpace s = TrimRightSpace (TrimLeftSpace s)"

text \<open>
  \<^verbatim>\<open>Fields\<close> (and the iterator \<^verbatim>\<open>FieldsSeq\<close>, collected): the maximal runs of bytes
  between white space runes. \<open>field\<close> is the run read so far.
\<close>

function fieldsFrom :: "string \<Rightarrow> string \<Rightarrow> string list" where
  "fieldsFrom field s =
     (if s = [] then (if field = [] then [] else [field])
      else if spaceWidth s = 0 then fieldsFrom (field @ [hd s]) (tl s)
      else (if field = [] then [] else [field]) @ fieldsFrom [] (drop (spaceWidth s) s))"
  by pat_completeness auto
termination
  by (relation "measure (\<lambda>(field, s). length s)")
     (auto simp: spaceWidth_def split: list.splits)

definition Fields :: "string \<Rightarrow> string list" where
  "Fields s = fieldsFrom [] s"

declare TrimLeftSpace.simps [simp del] TrimRightSpace.simps [simp del]
  fieldsFrom.simps [simp del]

text \<open>
  \<^verbatim>\<open>ToLower\<close>. On ASCII input this is Go's function. Two runes outside ASCII have an
  ASCII lower case: U+0130 (bytes C4 B0) maps to \<open>i\<close> and U+212A (bytes E2 84 AA) to \<open>k\<close>.
  Every other byte outside ASCII is kept as it is, where Go writes the lower case rune or
  U+FFFD: the result has Go's ASCII bytes with the same neighbours, which is all the
  code reads of it (it searches the result for the ASCII word \<^verbatim>\<open>security\<close>).
\<close>

definition lowerByte :: "char \<Rightarrow> char" where
  "lowerByte c =
     (let n = (of_char c :: nat) in if 65 \<le> n \<and> n \<le> 90 then char_of (n + 32) else c)"

fun ToLower :: "string \<Rightarrow> string" where
  "ToLower [] = []"
| "ToLower (c # s) =
     (if HasPrefix (c # s) [CHR 0xC4, CHR 0xB0] then CHR ''i'' # ToLower (drop 1 s)
      else if HasPrefix (c # s) [CHR 0xE2, CHR 0x84, CHR 0xAA] then CHR ''k'' # ToLower (drop 2 s)
      else lowerByte c # ToLower s)"

subsection \<open>Package fmt: the verb \<^verbatim>\<open>%d\<close>\<close>

function natDigits :: "nat \<Rightarrow> string" where
  "natDigits n =
     (if n < 10 then [''0123456789'' ! n]
      else natDigits (n div 10) @ [''0123456789'' ! (n mod 10)])"
  by pat_completeness auto
termination
  by (relation "measure id") auto

declare natDigits.simps [simp del]

definition formatInt :: "int \<Rightarrow> string" where
  "formatInt i = (if i < 0 then CHR ''-'' # natDigits (nat (- i)) else natDigits (nat i))"

subsection \<open>Package bufio: a Scanner over the lines of a string\<close>

text \<open>
  \<^verbatim>\<open>bufio.NewScanner(strings.NewReader(output))\<close> with the default split function
  \<^verbatim>\<open>ScanLines\<close>: \<^verbatim>\<open>scanner.Text()\<close> is, in turn, each line of the input without its
  line feed and without one trailing carriage return; an input that ends in a line feed
  has no empty last line. The buffer of a Scanner holds at most \<^verbatim>\<open>MaxScanTokenSize\<close>
  bytes: at a line of that many bytes or more \<^verbatim>\<open>Scan\<close> returns false, and the loops of
  the parsers, which do not look at \<^verbatim>\<open>scanner.Err()\<close>, end there.
\<close>

definition MaxScanTokenSize :: int where
  "MaxScanTokenSize = 64 * 1024"

definition dropCR :: "string \<Rightarrow> string" where
  "dropCR data = (if data \<noteq> [] \<and> last data = CHR 0x0D then butlast data else data)"

definition rawLines :: "string \<Rightarrow> string list" where
  "rawLines input =
     (let parts = Split input [CHR 0x0A] in if last parts = [] then butlast parts else parts)"

definition ScannerLines :: "string \<Rightarrow> string list" where
  "ScannerLines input =
     map dropCR (takeWhile (\<lambda>l. int (length l) < MaxScanTokenSize) (rawLines input))"

section \<open>The reconciler: CombinePackageData\<close>

text \<open>
  The first loop of \<^verbatim>\<open>CombinePackageData\<close>: every upgradable package is appended, with
  the description of the installed package of the same name when its own is empty, and
  its name is recorded in \<^verbatim>\<open>upgradableMap\<close>.
\<close>

fun upgradableLoop ::
  "(string \<rightharpoonup> Package) \<Rightarrow> Package list \<Rightarrow> Package list \<times> (string \<rightharpoonup> bool)
    \<Rightarrow> Package list \<times> (string \<rightharpoonup> bool)" where
  "upgradableLoop installedPackages [] (packages, upgradableMap) = (packages, upgradableMap)"
| "upgradableLoop installedPackages (pkg # rest) (packages, upgradableMap) =
     (let pkg' = (case installedPackages (Name pkg) of
                    Some installedPkg \<Rightarrow>
                      if Description pkg = [] then pkg\<lparr>Description := Description installedPkg\<rparr>
                      else pkg
                  | None \<Rightarrow> pkg)
      in upgradableLoop installedPackages rest
           (packages @ [pkg'], upgradableMap(Name pkg \<mapsto> True)))"

text \<open>
  The second loop ranges over the installed map (in the order \<open>keyOrder\<close>) and appends a
  fresh package for every key not recorded in \<^verbatim>\<open>upgradableMap\<close>. The composite literal
  sets four fields; \<^verbatim>\<open>Description\<close> and \<^verbatim>\<open>AvailableVersion\<close> keep their zero value.
\<close>

fun installedLoop ::
  "(string \<rightharpoonup> Package) \<Rightarrow> (string \<rightharpoonup> bool) \<Rightarrow> string list \<Rightarrow> Package list
    \<Rightarrow> Package list" where
  "installedLoop installedPackages upgradableMap [] packages = packages"
| "installedLoop installedPackages upgradableMap (packageName # rest) packages =
     (case installedPackages packageName of
        None \<Rightarrow> installedLoop installedPackages upgradableMap rest packages
      | Some pkg \<Rightarrow>
          if \<not> lookupBool upgradableMap packageName then
            installedLoop installedPackages upgradableMap rest
              (packages @ [\<lparr>Name = Name pkg, Description = [],
                             CurrentVersion = CurrentVersion pkg, AvailableVersion = [],
                             NeedsUpdate = False, IsSecurityUpdate = False\<rparr>])
          else installedLoop installedPackages upgradableMap rest packages)"

definition CombinePackageData ::
  "(string \<rightharpoonup> Package) \<Rightarrow> string list \<Rightarrow> Package list \<Rightarrow> Package list" where
  "CombinePackageData installedPackages keyOrder upgradablePackages =
     (case upgradableLoop installedPackages upgradablePackages ([], Map.empty) of
        (packages, upgradableMap) \<Rightarrow>
          installedLoop installedPackages upgradableMap keyOrder packages)"

text \<open>What the first loop does to one upgradable entry.\<close>

definition enrich :: "(string \<rightharpoonup> Package) \<Rightarrow> Package \<Rightarrow> Package" where
  "enrich installedPackages pkg =
     (case installedPackages (Name pkg) of
        Some installedPkg \<Rightarrow>
          if Description pkg = [] then pkg\<lparr>Description := Description installedPkg\<rparr> else pkg
      | None \<Rightarrow> pkg)"

text \<open>What the second loop builds from one installed entry.\<close>

definition installedOnly :: "Package \<Rightarrow> Package" where
  "installedOnly pkg =
     \<lparr>Name = Name pkg, Description = [], CurrentVersion = CurrentVersion pkg,
      AvailableVersion = [], NeedsUpdate = False, IsSecurityUpdate = False\<rparr>"

section \<open>The APT source: APTManager\<close>

subsection \<open>parseInstalledPackages\<close>

text \<open>
  One iteration of the loop of \<^verbatim>\<open>APTManager.parseInstalledPackages\<close> over the lines of
  the \<^verbatim>\<open>dpkg-query\<close> output. The state is the map built so far and \<^verbatim>\<open>currentPkg\<close>,
  the package a continuation line belongs to (\<open>None\<close> for Go's \<^verbatim>\<open>nil\<close>).
\<close>

definition installedLineStep ::
  "(string \<rightharpoonup> Package) \<times> Package option \<Rightarrow> string \<Rightarrow> (string \<rightharpoonup> Package) \<times> Package option"
  where
  "installedLineStep st line =
     (case st of (installedPackages, currentPkg) \<Rightarrow>
        let trimmedLine = TrimSpace line in
        if trimmedLine = [] then (installedPackages, currentPkg)
        else if HasPrefix line '' '' \<and> currentPkg \<noteq> None then
          (case currentPkg of
             None \<Rightarrow> (installedPackages, currentPkg)
           | Some cur \<Rightarrow>
               let cur' = cur\<lparr>Description := Description cur @ [CHR 0x0A] @ trimmedLine\<rparr>
               in (installedPackages(Name cur' \<mapsto> cur'), Some cur'))
        else
          let parts = SplitN trimmedLine '' '' 3 in
          if length parts < 2 then (installedPackages, None)
          else
            let packageName = parts ! 0;
                version = parts ! 1;
                description = (if length parts = 3 then parts ! 2 else []);
                pkg = \<lparr>Name = packageName, Description = description,
                       CurrentVersion = version, AvailableVersion = [],
                       NeedsUpdate = False, IsSecurityUpdate = False\<rparr>
            in (installedPackages(packageName \<mapsto> pkg), Some pkg))"

definition APTManager_parseInstalledPackages :: "string \<Rightarrow> (string \<rightharpoonup> Package)" where
  "APTManager_parseInstalledPackages output =
     fst (foldl installedLineStep (Map.empty, None) (ScannerLines output))"

subsection \<open>parseAPTUpgrade\<close>

text \<open>
  The inner loop \<^verbatim>\<open>for j := i + 1; j < len(fields); j++\<close>, over the fields after
  the one that opened the bracket.
\<close>

fun versionPartsLoop :: "string list \<Rightarrow> string list \<Rightarrow> string list" where
  "versionPartsLoop [] versionParts = versionParts"
| "versionPartsLoop (fj # rest) versionParts =
     (if HasSuffix fj '']'' then versionParts @ [TrimSuffix fj '']'']
      else versionPartsLoop rest (versionParts @ [fj]))"

text \<open>
  The loop \<^verbatim>\<open>for i, field := range fields\<close> that extracts the current version; the
  argument is \<^verbatim>\<open>fields[i:]\<close>, and the result \<^verbatim>\<open>currentVersion\<close> (empty if the loop
  ends without a break).
\<close>

fun currentVersionLoop :: "string list \<Rightarrow> string" where
  "currentVersionLoop [] = []"
| "currentVersionLoop (field # rest) =
     (if HasPrefix field ''['' \<and> HasSuffix field '']'' then Trim field ''[]''
      else (case CutPrefix field ''['' of
              Some after \<Rightarrow> Join (versionPartsLoop rest [after]) '' ''
            | None \<Rightarrow> currentVersionLoop rest))"

text \<open>The loop that extracts the available version.\<close>

fun availableVersionLoop :: "string list \<Rightarrow> string" where
  "availableVersionLoop [] = []"
| "availableVersionLoop (field # rest) =
     (case CutPrefix field ''('' of
        Some after \<Rightarrow> after
      | None \<Rightarrow> availableVersionLoop rest)"

text \<open>
  The body of the loop over the lines: \<open>Some pkg\<close> when the line appends \<open>pkg\<close> to
  \<^verbatim>\<open>packages\<close>, \<open>None\<close> when it appends nothing.
\<close>

definition parseAPTUpgradeLine :: "string \<Rightarrow> Package option" where
  "parseAPTUpgradeLine text =
     (let line = TrimSpace text in
      if \<not> HasPrefix line ''Inst '' then None
      else
        let fields = Fields line in
        if length fields < 4 then None
        else
          let packageName = fields ! 1;
              currentVersion = currentVersionLoop fields;
              availableVersion = availableVersionLoop fields;
              isSecurityUpdate = Contains (ToLower line) ''security''
          in if packageName \<noteq> [] \<and> currentVersion \<noteq> [] \<and> availableVersion \<noteq> [] then
               Some \<lparr>Name = packageName, Description = [],
                     CurrentVersion = currentVersion, AvailableVersion = availableVersion,
                     NeedsUpdate = True, IsSecurityUpdate = isSecurityUpdate\<rparr>
             else None)"

definition APTManager_parseAPTUpgrade :: "string \<Rightarrow> Package list" where
  "APTManager_parseAPTUpgrade output = List.map_filter parseAPTUpgradeLine (ScannerLines output)"

section \<open>The DNF source: DNFManager.parseUpgradablePackages\<close>

text \<open>
  The test the code writes out twice, once for the candidate and once for each installed
  key: is the text after the last dot an architecture?
\<close>

definition isArch :: "string \<Rightarrow> bool" where
  "isArch archSuffix =
     (archSuffix = ''x86_64'' \<or> archSuffix = ''i686'' \<or> archSuffix = ''i386'' \<or>
      archSuffix = ''noarch'' \<or> archSuffix = ''aarch64'' \<or> archSuffix = ''arm64'')"

text \<open>
  The loop \<^verbatim>\<open>for installedName, version := range installedPackages\<close>, over the keys in
  the order of this run; the result is \<^verbatim>\<open>currentVersion\<close> after the loop.
\<close>

fun scanInstalled ::
  "(string \<rightharpoonup> string) \<Rightarrow> string \<Rightarrow> string \<Rightarrow> string list \<Rightarrow> string \<Rightarrow> string" where
  "scanInstalled installedPackages basePackageName packageName [] currentVersion =
     currentVersion"
| "scanInstalled installedPackages basePackageName packageName (installedName # rest)
     currentVersion =
     (case installedPackages installedName of
        None \<Rightarrow>
          scanInstalled installedPackages basePackageName packageName rest currentVersion
      | Some version \<Rightarrow>
          let idx = LastIndex installedName ''.'';
              baseName =
                (if idx > 0 \<and> isArch (drop (nat (idx + 1)) installedName)
                 then take (nat idx) installedName else installedName)
          in if baseName = basePackageName \<or> baseName = packageName then version
             else scanInstalled installedPackages basePackageName packageName rest
                    currentVersion)"

text \<open>
  The loop over the lines of the output of \<^verbatim>\<open>list installed <name>\<close>; the result is
  \<^verbatim>\<open>currentVersion\<close> after the loop, which starts empty.
\<close>

fun listInstalledLoop :: "string \<Rightarrow> string list \<Rightarrow> string" where
  "listInstalledLoop packageName [] = []"
| "listInstalledLoop packageName (currentLine # rest) =
     (if Contains currentLine packageName \<and> \<not> Contains currentLine ''Installed'' \<and>
         \<not> Contains currentLine ''Available''
      then (let currentFields = Fields currentLine in
            if length currentFields \<ge> 2 then currentFields ! 1
            else listInstalledLoop packageName rest)
      else listInstalledLoop packageName rest)"

text \<open>
  The current version of one candidate. \<open>commandOutput name args\<close> is what
  \<^verbatim>\<open>exec.Command(name, args...).Output()\<close> returns on the host: \<open>Some\<close> of the standard
  output when the error is nil, \<open>None\<close> otherwise.
\<close>

definition resolveCurrentVersion ::
  "(string \<Rightarrow> string list \<Rightarrow> string option) \<Rightarrow> string \<Rightarrow> (string \<rightharpoonup> string) \<Rightarrow> string list
    \<Rightarrow> string \<Rightarrow> string" where
  "resolveCurrentVersion commandOutput packageManager installedPackages keyOrder packageName =
     (let currentVersion0 = lookupString installedPackages packageName;
          currentVersion1 =
            (if currentVersion0 = [] then
               (let idx = LastIndex packageName ''.'';
                    stripped = (idx > 0 \<and> isArch (drop (nat (idx + 1)) packageName));
                    basePackageName = (if stripped then take (nat idx) packageName
                                       else packageName);
                    currentVersion = (if stripped then lookupString installedPackages
                                                         basePackageName
                                      else currentVersion0)
                in if currentVersion = [] then
                     scanInstalled installedPackages basePackageName packageName keyOrder
                       currentVersion
                   else currentVersion)
             else currentVersion0)
      in if currentVersion1 = [] then
           (case commandOutput packageManager [''list'', ''installed'', packageName] of
              Some getCurrentOutput \<Rightarrow>
                listInstalledLoop packageName (Split getCurrentOutput [CHR 0x0A])
            | None \<Rightarrow> currentVersion1)
         else currentVersion1)"

text \<open>The banner test at the head of the loop body.\<close>

definition isBannerLine :: "string \<Rightarrow> bool" where
  "isBannerLine line =
     (line = [] \<or> Contains line ''Loaded plugins'' \<or> Contains line ''Last metadata'' \<or>
      HasPrefix line ''Loading'')"

text \<open>
  The body of the loop over the lines of the \<^verbatim>\<open>check-update\<close> output: \<open>Some pkg\<close> when
  the line appends \<open>pkg\<close>, \<open>None\<close> when it appends nothing (and the loop goes on).
\<close>

definition parseUpgradableLine ::
  "(string \<Rightarrow> string list \<Rightarrow> string option) \<Rightarrow> string \<Rightarrow> (string \<rightharpoonup> string) \<Rightarrow> string list
    \<Rightarrow> string \<Rightarrow> Package option" where
  "parseUpgradableLine commandOutput packageManager installedPackages keyOrder text =
     (let line = TrimSpace text in
      if isBannerLine line then None
      else
        let fields = Fields line in
        if length fields < 3 then None
        else
          let packageName = fields ! 0;
              availableVersion = fields ! 1;
              repo = fields ! 2;
              currentVersion = resolveCurrentVersion commandOutput packageManager
                                 installedPackages keyOrder packageName
          in if packageName \<noteq> [] \<and> currentVersion \<noteq> [] \<and> availableVersion \<noteq> [] then
               Some \<lparr>Name = packageName, Description = [],
                     CurrentVersion = currentVersion, AvailableVersion = availableVersion,
                     NeedsUpdate = True,
                     IsSecurityUpdate = Contains (ToLower repo) ''security''\<rparr>
             else None)"

text \<open>
  The whole function. Each line that reaches the range loop runs it in an order of its
  own: \<open>keyOrders n\<close> is the order for the \<open>n\<close>-th scanned line.
\<close>

definition DNFManager_parseUpgradablePackages ::
  "(string \<Rightarrow> string list \<Rightarrow> string option) \<Rightarrow> (nat \<Rightarrow> string list) \<Rightarrow> string \<Rightarrow> string
    \<Rightarrow> (string \<rightharpoonup> string) \<Rightarrow> Package list" where
  "DNFManager_parseUpgradablePackages commandOutput keyOrders output packageManager
     installedPackages =
     List.map_filter
       (\<lambda>(n, text). parseUpgradableLine commandOutput packageManager installedPackages
                      (keyOrders n) text)
       (enumerate 0 (ScannerLines output))"

section \<open>The Windows Update source\<close>

subsection \<open>The Windows Update Agent, as the code reads it\<close>

text \<open>
  Every call of \<^verbatim>\<open>oleutil.GetProperty\<close> or \<^verbatim>\<open>oleutil.CallMethod\<close> returns a value or
  an error: a property is an \<open>option\<close>, \<open>None\<close> when the read fails. A string property
  holds what \<^verbatim>\<open>ToString()\<close> gives, a number what \<^verbatim>\<open>Val\<close> holds. A collection has a
  \<^verbatim>\<open>Count\<close> and items; \<^verbatim>\<open>Item\<close> at an index the collection does not have fails.
\<close>

record 'a com_collection =
  Count :: "int option"
  Items :: "'a option list"

definition Item :: "'a com_collection \<Rightarrow> int \<Rightarrow> 'a option" where
  "Item c i = (if 0 \<le> i \<and> nat i < length (Items c) then Items c ! nat i else None)"

record com_identity =
  RevisionNumber :: "int option"
  UpdateID :: "string option"

record com_category =
  CategoryName :: "string option"

record com_update =
  Title :: "string option"
  KBArticleIDs :: "string com_collection option"
  Identity :: "com_identity option"
  MsrcSeverity :: "string option"
  Categories :: "com_category com_collection option"

text \<open>
  One run of \<^verbatim>\<open>searchUpdates\<close> meets these outcomes, in this order: of
  \<^verbatim>\<open>CoInitializeEx\<close> (nil, an \<^verbatim>\<open>*ole.OleError\<close> with its code, or another error), of
  creating the session object, of querying its interface, of creating the searcher, of
  the search (\<open>None\<close>: it failed), and of reading \<^verbatim>\<open>Updates\<close> from the search result.
  \<^verbatim>\<open>MakeSliceLimit\<close> is the largest capacity for which
  \<^verbatim>\<open>make([]models.Package, 0, count)\<close> returns in this run: the Go runtime panics at a
  negative capacity and at one whose bytes are more than it can allocate (on 64-bit
  Windows, more than \<open>2^48\<close> bytes, with 72 bytes for a \<^verbatim>\<open>models.Package\<close>).
\<close>

datatype coinit_result = CoInitNil | CoInitOleError nat | CoInitOtherError

record wua_session =
  CoInitializeEx :: coinit_result
  CreateObject :: bool
  QueryInterface :: bool
  CreateUpdateSearcher :: bool
  Search :: "com_update com_collection option option"
  MakeSliceLimit :: int

text \<open>
  A call of a Go function returns, or it panics. Nothing in the package recovers from a
  panic, so a panic ends the caller as well.
\<close>

datatype 'a go_result = Panic | Return 'a

text \<open>The host: the session each search criteria string meets.\<close>

type_synonym wua = "string \<Rightarrow> wua_session"

text \<open>The errors \<^verbatim>\<open>searchUpdates\<close> returns, one for each \<^verbatim>\<open>fmt.Errorf\<close> of its body.\<close>

datatype search_error =
    ComInitializationFailed
  | CreateUpdateSessionFailed
  | QueryUpdateSessionFailed
  | CreateUpdateSearcherFailed
  | UpdateSearchFailed string
  | GetUpdatesCollectionFailed
  | GetUpdateCountFailed

text \<open>The calls of the logger, one constructor for each message.\<close>

datatype log_entry =
    DebugSearching string
  | DebugFound int string
  | WarnItemFailed int
  | WarnTitleFailed
  | InfoSearchingAvailable
  | WarnInstalledFailed search_error
  | WarnAvailableFailed search_error
  | InfoFound nat nat

subsection \<open>parseUpdate and its helpers\<close>

definition getKBArticleID :: "com_update \<Rightarrow> string" where
  "getKBArticleID update =
     (case KBArticleIDs update of
        None \<Rightarrow> []
      | Some kbIDs \<Rightarrow>
          (case Count kbIDs of
             None \<Rightarrow> []
           | Some countVal \<Rightarrow>
               if countVal = 0 then []
               else (case Item kbIDs 0 of None \<Rightarrow> [] | Some itemVal \<Rightarrow> itemVal)))"

definition getUpdateVersion :: "com_update \<Rightarrow> string" where
  "getUpdateVersion update =
     (case Identity update of
        None \<Rightarrow> []
      | Some identity \<Rightarrow>
          (case RevisionNumber identity of
             None \<Rightarrow> []
           | Some revVal \<Rightarrow>
               (case UpdateID identity of
                  None \<Rightarrow> ''rev.'' @ formatInt revVal
                | Some updateIDVal \<Rightarrow> updateIDVal @ ''.'' @ formatInt revVal)))"

text \<open>The loop over the categories, \<^verbatim>\<open>for i := 0; i < count; i++\<close>.\<close>

fun categoriesLoop :: "com_category com_collection \<Rightarrow> nat list \<Rightarrow> bool" where
  "categoriesLoop categories [] = False"
| "categoriesLoop categories (i # rest) =
     (case Item categories (int i) of
        None \<Rightarrow> categoriesLoop categories rest
      | Some cat \<Rightarrow>
          (case CategoryName cat of
             None \<Rightarrow> categoriesLoop categories rest
           | Some catName \<Rightarrow>
               if catName = ''Security Updates'' \<or> catName = ''Critical Updates'' then True
               else categoriesLoop categories rest))"

definition isSecurityUpdate :: "com_update \<Rightarrow> bool" where
  "isSecurityUpdate update =
     (if (case MsrcSeverity update of None \<Rightarrow> False | Some severityVal \<Rightarrow> severityVal \<noteq> [])
      then True
      else (case Categories update of
              None \<Rightarrow> False
            | Some categories \<Rightarrow>
                (case Count categories of
                   None \<Rightarrow> False
                 | Some countVal \<Rightarrow> categoriesLoop categories [0..<nat countVal])))"

text \<open>\<^verbatim>\<open>parseUpdate\<close> returns a pointer: \<open>None\<close> for nil. The first component is what it logs.\<close>

definition parseUpdate :: "com_update \<Rightarrow> string \<Rightarrow> log_entry list \<times> Package option" where
  "parseUpdate update criteria =
     (case Title update of
        None \<Rightarrow> ([WarnTitleFailed], None)
      | Some title \<Rightarrow>
          let kbID = getKBArticleID update;
              version = getUpdateVersion update;
              isSecurity = isSecurityUpdate update;
              name = (if kbID \<noteq> [] then ''KB'' @ kbID else title);
              isInstalled = Contains criteria ''IsInstalled=1'';
              pkg = \<lparr>Name = name, Description = title, CurrentVersion = [],
                     AvailableVersion = [], NeedsUpdate = \<not> isInstalled,
                     IsSecurityUpdate = isSecurity\<rparr>
          in ([], Some (if isInstalled then pkg\<lparr>CurrentVersion := version\<rparr>
                        else pkg\<lparr>AvailableVersion := version\<rparr>)))"

subsection \<open>searchUpdates\<close>

text \<open>The loop over the items, \<^verbatim>\<open>for i := 0; i < count; i++\<close>; the state is the log and \<^verbatim>\<open>packages\<close>.\<close>

fun updatesLoop ::
  "com_update com_collection \<Rightarrow> string \<Rightarrow> nat list \<Rightarrow> log_entry list \<times> Package list
    \<Rightarrow> log_entry list \<times> Package list" where
  "updatesLoop updates criteria [] (logs, packages) = (logs, packages)"
| "updatesLoop updates criteria (i # rest) (logs, packages) =
     (case Item updates (int i) of
        None \<Rightarrow> updatesLoop updates criteria rest (logs @ [WarnItemFailed (int i)], packages)
      | Some update \<Rightarrow>
          (case parseUpdate update criteria of
             (lg, None) \<Rightarrow> updatesLoop updates criteria rest (logs @ lg, packages)
           | (lg, Some pkg) \<Rightarrow>
               updatesLoop updates criteria rest (logs @ lg, packages @ [pkg])))"

text \<open>
  \<^verbatim>\<open>searchUpdates\<close>. The slice is made with the capacity \<^verbatim>\<open>count\<close> after the count is
  logged and before the loop: there the call panics when the count is negative or above
  what \<^verbatim>\<open>make\<close> accepts.
\<close>

definition searchUpdates ::
  "wua_session \<Rightarrow> string \<Rightarrow> log_entry list \<times> (search_error + Package list) go_result" where
  "searchUpdates session criteria =
     (if CoInitializeEx session \<noteq> CoInitNil \<and> CoInitializeEx session \<noteq> CoInitOleError 1
      then ([], Return (Inl ComInitializationFailed))
      else if \<not> CreateObject session then ([], Return (Inl CreateUpdateSessionFailed))
      else if \<not> QueryInterface session then ([], Return (Inl QueryUpdateSessionFailed))
      else if \<not> CreateUpdateSearcher session then ([], Return (Inl CreateUpdateSearcherFailed))
      else
        (case Search session of
           None \<Rightarrow> ([DebugSearching criteria], Return (Inl (UpdateSearchFailed criteria)))
         | Some result \<Rightarrow>
             (case result of
                None \<Rightarrow> ([DebugSearching criteria], Return (Inl GetUpdatesCollectionFailed))
              | Some updates \<Rightarrow>
                  (case Count updates of
                     None \<Rightarrow> ([DebugSearching criteria], Return (Inl GetUpdateCountFailed))
                   | Some count \<Rightarrow>
                       if count < 0 \<or> MakeSliceLimit session < count then
                         ([DebugSearching criteria, DebugFound count criteria], Panic)
                       else
                         (case updatesLoop updates criteria [0..<nat count]
                                 ([DebugSearching criteria, DebugFound count criteria], []) of
                            (logs, packages) \<Rightarrow> (logs, Return (Inr packages)))))))"

definition GetInstalledUpdates ::
  "wua \<Rightarrow> log_entry list \<times> (search_error + Package list) go_result" where
  "GetInstalledUpdates w = searchUpdates (w ''IsInstalled=1'') ''IsInstalled=1''"

definition GetAvailableUpdates ::
  "wua \<Rightarrow> log_entry list \<times> (search_error + Package list) go_result" where
  "GetAvailableUpdates w =
     (case searchUpdates (w ''IsInstalled=0 AND IsHidden=0'') ''IsInstalled=0 AND IsHidden=0'' of
        (logs, r) \<Rightarrow> (InfoSearchingAvailable # logs, r))"

subsection \<open>The top-level Manager.GetPackages\<close>

text \<open>
  The result is the log and, when the call returns, the slice and the error (\<open>None\<close>
  for nil). A panic of a search is a panic of \<^verbatim>\<open>GetPackages\<close>.
\<close>

definition GetPackages ::
  "wua \<Rightarrow> log_entry list \<times> (Package list \<times> search_error option) go_result" where
  "GetPackages w =
     (case GetInstalledUpdates w of
        (logs1, Panic) \<Rightarrow> (logs1, Panic)
      | (logs1, Return r1) \<Rightarrow>
          (case (case r1 of Inl err \<Rightarrow> ([WarnInstalledFailed err], [])
                          | Inr pkgs \<Rightarrow> ([], pkgs)) of (warn1, installed) \<Rightarrow>
             (case GetAvailableUpdates w of
                (logs2, Panic) \<Rightarrow> (logs1 @ warn1 @ logs2, Panic)
              | (logs2, Return r2) \<Rightarrow>
                  (case (case r2 of Inl err \<Rightarrow> ([WarnAvailableFailed err], [])
                                  | Inr pkgs \<Rightarrow> ([], pkgs)) of (warn2, available) \<Rightarrow>
                     (logs1 @ warn1 @ logs2 @ warn2 @
                        [InfoFound (length installed) (length available)],
                      Return (installed @ available, None))))))"

section \<open>Notions the properties are stated with\<close>

text \<open>
  The list a failed search stands for in \<^verbatim>\<open>GetPackages\<close>; the list of a call of
  \<^verbatim>\<open>GetPackages\<close> that returns; a session in which every call
  before the search succeeds (\<^verbatim>\<open>CoInitializeEx\<close> may return \<^verbatim>\<open>S_FALSE\<close>, code 1); an
  item whose \<^verbatim>\<open>Item\<close> and \<^verbatim>\<open>Title\<close> reads both succeed; the package \<^verbatim>\<open>parseUpdate\<close>
  makes of such an item; the warning logged for an item that is not readable.
\<close>

definition orEmpty :: "search_error + Package list \<Rightarrow> Package list" where
  "orEmpty r = (case r of Inl err \<Rightarrow> [] | Inr pkgs \<Rightarrow> pkgs)"

definition returnedPackages ::
  "(Package list \<times> search_error option) go_result \<Rightarrow> Package list" where
  "returnedPackages r = (case r of Panic \<Rightarrow> [] | Return (pkgs, err) \<Rightarrow> pkgs)"

definition sessionReady :: "wua_session \<Rightarrow> bool" where
  "sessionReady session =
     ((CoInitializeEx session = CoInitNil \<or> CoInitializeEx session = CoInitOleError 1) \<and>
      CreateObject session \<and> QueryInterface session \<and> CreateUpdateSearcher session)"

definition readable :: "com_update com_collection \<Rightarrow> nat \<Rightarrow> bool" where
  "readable updates i =
     (case Item updates (int i) of None \<Rightarrow> False | Some update \<Rightarrow> Title update \<noteq> None)"

definition packageAt :: "com_update com_collection \<Rightarrow> string \<Rightarrow> nat \<Rightarrow> Package" where
  "packageAt updates criteria i = the (snd (parseUpdate (the (Item updates (int i))) criteria))"

definition warningAt :: "com_update com_collection \<Rightarrow> nat \<Rightarrow> log_entry" where
  "warningAt updates i =
     (if Item updates (int i) = None then WarnItemFailed (int i) else WarnTitleFailed)"

definition isWarning :: "log_entry \<Rightarrow> bool" where
  "isWarning e = (case e of WarnItemFailed i \<Rightarrow> True | WarnTitleFailed \<Rightarrow> True | _ \<Rightarrow> False)"

text \<open>
  The invariant of the data model: a package that needs no update has a current version,
  one that needs an update has an available version.
\<close>

definition packageInvariant :: "Package \<Rightarrow> bool" where
  "packageInvariant p =
     (if NeedsUpdate p then AvailableVersion p \<noteq> [] else CurrentVersion p \<noteq> [])"


text \<open>
  The four ways \<^verbatim>\<open>DNFManager.parseUpgradablePackages\<close> looks for the current version
  of a candidate, each giving the empty string when it fails. A name has an architecture
  suffix when the text after its last dot is one of the six architectures and the dot is
  not its first character. The scan takes the first key, in the order of the range loop,
  whose name without its suffix is the candidate's name with or without its suffix. The
  command strategy reads the output of \<^verbatim>\<open>list installed <name>\<close> and takes the second
  token of the first line that contains the name, contains neither \<^verbatim>\<open>Installed\<close> nor
  \<^verbatim>\<open>Available\<close>, and has a second token. Claim C8 words the last strategy without
  that last condition: \<open>strategyCommandAsStated\<close> takes the first line that contains the
  name and is no header, and its second token, which is nothing when the line has none.
\<close>

definition hasArchSuffix :: "string \<Rightarrow> bool" where
  "hasArchSuffix name =
     (LastIndex name ''.'' > 0 \<and> isArch (drop (nat (LastIndex name ''.'' + 1)) name))"

definition stripArch :: "string \<Rightarrow> string" where
  "stripArch name =
     (if hasArchSuffix name then take (nat (LastIndex name ''.'')) name else name)"

definition strategyExact :: "(string \<rightharpoonup> string) \<Rightarrow> string \<Rightarrow> string" where
  "strategyExact installedPackages name = lookupString installedPackages name"

definition strategyStripped :: "(string \<rightharpoonup> string) \<Rightarrow> string \<Rightarrow> string" where
  "strategyStripped installedPackages name =
     (if hasArchSuffix name then lookupString installedPackages (stripArch name) else [])"

definition strategyScan :: "(string \<rightharpoonup> string) \<Rightarrow> string list \<Rightarrow> string \<Rightarrow> string" where
  "strategyScan installedPackages keyOrder name =
     (case find (\<lambda>k. stripArch k = stripArch name \<or> stripArch k = name) keyOrder of
        None \<Rightarrow> []
      | Some k \<Rightarrow> lookupString installedPackages k)"

definition strategyCommand ::
  "(string \<Rightarrow> string list \<Rightarrow> string option) \<Rightarrow> string \<Rightarrow> string \<Rightarrow> string" where
  "strategyCommand commandOutput packageManager name =
     (case commandOutput packageManager [''list'', ''installed'', name] of
        None \<Rightarrow> []
      | Some out \<Rightarrow>
          (case find (\<lambda>l. Contains l name \<and> \<not> Contains l ''Installed'' \<and>
                           \<not> Contains l ''Available'' \<and> 2 \<le> length (Fields l))
                  (Split out [CHR 0x0A]) of
             None \<Rightarrow> []
           | Some l \<Rightarrow> Fields l ! 1))"

definition strategyCommandAsStated ::
  "(string \<Rightarrow> string list \<Rightarrow> string option) \<Rightarrow> string \<Rightarrow> string \<Rightarrow> string" where
  "strategyCommandAsStated commandOutput packageManager name =
     (case commandOutput packageManager [''list'', ''installed'', name] of
        None \<Rightarrow> []
      | Some out \<Rightarrow>
          (case find (\<lambda>l. Contains l name \<and> \<not> Contains l ''Installed'' \<and>
                           \<not> Contains l ''Available'')
                  (Split out [CHR 0x0A]) of
             None \<Rightarrow> []
           | Some l \<Rightarrow> (if 2 \<le> length (Fields l) then Fields l ! 1 else [])))"

definition firstNonEmpty :: "string list \<Rightarrow> string" where
  "firstNonEmpty vs = (case filter (\<lambda>v. v \<noteq> []) vs of [] \<Rightarrow> [] | v # _ \<Rightarrow> v)"

section \<open>Example inputs\<close>

text \<open>An installed map and an upgradable list with one name in common.\<close>

definition exampleInstalled :: "string \<rightharpoonup> Package" where
  "exampleInstalled =
     [''vim'' \<mapsto> \<lparr>Name = ''vim'', Description = ''Vi IMproved'', CurrentVersion = ''8.2.16'',
                  AvailableVersion = [], NeedsUpdate = False, IsSecurityUpdate = False\<rparr>,
      ''bash'' \<mapsto> \<lparr>Name = ''bash'', Description = ''GNU Bourne Again SHell'',
                   CurrentVersion = ''5.1-6'', AvailableVersion = [], NeedsUpdate = False,
                   IsSecurityUpdate = False\<rparr>]"

definition exampleUpgradable :: "Package list" where
  "exampleUpgradable =
     [\<lparr>Name = ''vim'', Description = [], CurrentVersion = ''8.2.16'',
       AvailableVersion = ''8.2.17'', NeedsUpdate = True, IsSecurityUpdate = False\<rparr>]"

text \<open>
  Windows updates: one that reads completely, the same update with a \<^verbatim>\<open>Title\<close> that
  fails to read, one whose \<^verbatim>\<open>Identity\<close> fails to read; a session whose search returns
  the given items, a session whose object cannot be created, a session whose collection
  reports the count \<open>-1\<close>, and the host made of the sessions the two searches meet.
\<close>

definition exampleGoodUpdate :: com_update where
  "exampleGoodUpdate =
     \<lparr>Title = Some ''2024-01 Security Update (KB5034441)'',
      KBArticleIDs = Some \<lparr>Count = Some 1, Items = [Some ''5034441'']\<rparr>,
      Identity = Some \<lparr>RevisionNumber = Some 200, UpdateID = Some ''a1b2c3''\<rparr>,
      MsrcSeverity = Some ''Critical'', Categories = None\<rparr>"

definition exampleNoTitleUpdate :: com_update where
  "exampleNoTitleUpdate = exampleGoodUpdate\<lparr>Title := None\<rparr>"

definition exampleNoIdentityUpdate :: com_update where
  "exampleNoIdentityUpdate =
     \<lparr>Title = Some ''Driver Update'', KBArticleIDs = None, Identity = None,
      MsrcSeverity = None, Categories = None\<rparr>"

definition sessionWith :: "com_update option list \<Rightarrow> wua_session" where
  "sessionWith items =
     \<lparr>CoInitializeEx = CoInitNil, CreateObject = True, QueryInterface = True,
      CreateUpdateSearcher = True,
      Search = Some (Some \<lparr>Count = Some (int (length items)), Items = items\<rparr>),
      MakeSliceLimit = 3909374676536\<rparr>"

definition failedSession :: wua_session where
  "failedSession =
     \<lparr>CoInitializeEx = CoInitNil, CreateObject = False, QueryInterface = True,
      CreateUpdateSearcher = True, Search = None, MakeSliceLimit = 3909374676536\<rparr>"

definition negativeCountSession :: wua_session where
  "negativeCountSession =
     \<lparr>CoInitializeEx = CoInitNil, CreateObject = True, QueryInterface = True,
      CreateUpdateSearcher = True, Search = Some (Some \<lparr>Count = Some (- 1), Items = []\<rparr>),
      MakeSliceLimit = 3909374676536\<rparr>"

definition hostWith :: "wua_session \<Rightarrow> wua_session \<Rightarrow> wua" where
  "hostWith installedSession availableSession =
     (\<lambda>criteria. if criteria = ''IsInstalled=1'' then installedSession else availableSession)"

text \<open>
  Hosts for the DNF source: one on which the command fails, one on which
  \<^verbatim>\<open>list installed bash\<close> prints a header and one package line.
\<close>

definition noCommand :: "string \<Rightarrow> string list \<Rightarrow> string option" where
  "noCommand name args = None"

definition exampleListInstalled :: "string \<Rightarrow> string list \<Rightarrow> string option" where
  "exampleListInstalled name args =
     (if args = [''list'', ''installed'', ''bash'']
      then Some (''Installed Packages'' @ [CHR 0x0A] @ ''bash.x86_64 5.1-6 @anaconda'' @ [CHR 0x0A])
      else None)"

text \<open>
  A host on which \<^verbatim>\<open>list installed zsh\<close> prints the header, a line with the name
  alone, and a package line.
\<close>

definition wrappedListInstalled :: "string \<Rightarrow> string list \<Rightarrow> string option" where
  "wrappedListInstalled name args =
     (if args = [''list'', ''installed'', ''zsh'']
      then Some (''Installed Packages'' @ [CHR 0x0A] @ ''zsh'' @ [CHR 0x0A] @
                 ''zsh.x86_64 5.8-9 @System'' @ [CHR 0x0A])
      else None)"

section \<open>Properties of the reconciler\<close>

lemma upgradableLoop_eq:
  "upgradableLoop inst ups (acc, um) =
     (acc @ map (enrich inst) ups,
      (\<lambda>k. if k \<in> Name ` set ups then Some True else um k))"
proof (induction ups arbitrary: acc um)
  case Nil
  show ?case by simp
next
  case (Cons u ups)
  have "(\<lambda>k. if k \<in> Name ` set ups then Some True else (um(Name u \<mapsto> True)) k) =
        (\<lambda>k. if k \<in> Name ` set (u # ups) then Some True else um k)"
    by (rule ext) auto
  with Cons show ?case by (simp add: enrich_def)
qed

lemma installedLoop_eq:
  "installedLoop inst um ks acc =
     acc @ map (\<lambda>k. installedOnly (the (inst k)))
             (filter (\<lambda>k. inst k \<noteq> None \<and> \<not> lookupBool um k) ks)"
  by (induction ks arbitrary: acc) (auto simp: installedOnly_def split: option.splits)

lemma CombinePackageData_eq:
  "CombinePackageData inst ks ups =
     map (enrich inst) ups @
     map (\<lambda>k. installedOnly (the (inst k)))
       (filter (\<lambda>k. inst k \<noteq> None \<and> k \<notin> Name ` set ups) ks)"
proof -
  have "lookupBool (\<lambda>k. if k \<in> Name ` set ups then Some True else Map.empty k) k =
        (k \<in> Name ` set ups)" for k
    by (simp add: lookupBool_def)
  then show ?thesis
    by (simp add: CombinePackageData_def upgradableLoop_eq installedLoop_eq)
qed

lemma exampleCombined:
  "CombinePackageData exampleInstalled [''bash'', ''vim''] exampleUpgradable =
     [\<lparr>Name = ''vim'', Description = ''Vi IMproved'', CurrentVersion = ''8.2.16'',
       AvailableVersion = ''8.2.17'', NeedsUpdate = True, IsSecurityUpdate = False\<rparr>,
      \<lparr>Name = ''bash'', Description = [], CurrentVersion = ''5.1-6'',
       AvailableVersion = [], NeedsUpdate = False, IsSecurityUpdate = False\<rparr>]"
  by (simp add: CombinePackageData_def exampleInstalled_def exampleUpgradable_def lookupBool_def)

lemma exampleOrder: "rangeOrder exampleInstalled [''bash'', ''vim'']"
  by (auto simp: rangeOrder_def exampleInstalled_def)

text \<open>
  Claim C2. For every installed map, every order in which the range loop visits its keys
  and every upgradable list, the result of \<^verbatim>\<open>CombinePackageData\<close> has at most
  \<open>|installed| + |upgradable|\<close> entries, and exactly that number minus the number of
  distinct names that are both a key of the installed map and the name of an upgradable
  entry.
\<close>

theorem CombinePackageData_length:
  assumes "rangeOrder installed keyOrder"
  shows "length (CombinePackageData installed keyOrder upgradable)
           \<le> card (dom installed) + length upgradable
       \<and> length (CombinePackageData installed keyOrder upgradable)
           = card (dom installed) + length upgradable
             - card (dom installed \<inter> Name ` set upgradable)
       \<and> card (dom installed \<inter> Name ` set upgradable) \<le> card (dom installed)"
proof -
  from assms have d: "distinct keyOrder" and s: "set keyOrder = dom installed"
    by (simp_all add: rangeOrder_def)
  have fin: "finite (dom installed)"
    using s by (metis List.finite_set)
  let ?N = "Name ` set upgradable"
  have f: "filter (\<lambda>k. installed k \<noteq> None \<and> k \<notin> ?N) keyOrder = filter (\<lambda>k. k \<notin> ?N) keyOrder"
    using s by (intro filter_cong) auto
  have "length (filter (\<lambda>k. k \<notin> ?N) keyOrder) = card (dom installed - ?N)"
    using d s by (simp add: distinct_length_filter Diff_eq Int_commute Collect_neg_eq)
  moreover have "card (dom installed - ?N) + card (dom installed \<inter> ?N) = card (dom installed)"
    using fin by (metis card_Int_Diff add.commute)
  moreover have "card (dom installed \<inter> ?N) \<le> card (dom installed)"
    using fin by (simp add: card_mono)
  moreover have "length (CombinePackageData installed keyOrder upgradable)
      = length upgradable + length (filter (\<lambda>k. k \<notin> ?N) keyOrder)"
    unfolding CombinePackageData_eq f by simp
  ultimately show ?thesis
    by linarith
qed

theorem CombinePackageData_length_witness:
  "rangeOrder exampleInstalled [''bash'', ''vim'']
   \<and> card (dom exampleInstalled) = 2 \<and> length exampleUpgradable = 1
   \<and> card (dom exampleInstalled \<inter> Name ` set exampleUpgradable) = 1
   \<and> length (CombinePackageData exampleInstalled [''bash'', ''vim''] exampleUpgradable) = 2"
proof -
  have c: "card (dom exampleInstalled) = 2"
    by (simp add: exampleInstalled_def)
  have i: "dom exampleInstalled \<inter> Name ` set exampleUpgradable = {''vim''}"
    by (auto simp: exampleInstalled_def exampleUpgradable_def)
  have l: "length exampleUpgradable = 1"
    by (simp add: exampleUpgradable_def)
  from CombinePackageData_length [OF exampleOrder, of exampleUpgradable]
  show ?thesis using exampleOrder c l by (simp add: i)
qed

text \<open>
  Claim C3, as the code has it. The upgradable entries are copied with the
  \<^verbatim>\<open>NeedsUpdate\<close> they come with, and the entries made from installed-only names have
  \<^verbatim>\<open>NeedsUpdate = false\<close>: an entry of the result has \<^verbatim>\<open>NeedsUpdate = true\<close> if and only
  if it was copied from an upgradable entry that has it. (So it marks exactly the entries
  that come from the upgradable list when every upgradable entry has the flag set, as
  those of the parsers do.)
\<close>

theorem CombinePackageData_needsUpdate:
  assumes "i < length (CombinePackageData installed keyOrder upgradable)"
  shows "NeedsUpdate (CombinePackageData installed keyOrder upgradable ! i)
           = (i < length upgradable \<and> NeedsUpdate (upgradable ! i))"
proof (cases "i < length upgradable")
  case True
  then show ?thesis
    by (simp add: CombinePackageData_eq nth_append enrich_def split: option.splits)
next
  case False
  with assms show ?thesis
    by (simp add: CombinePackageData_eq nth_append installedOnly_def)
qed

theorem CombinePackageData_needsUpdate_witness:
  "(1::nat) < length (CombinePackageData exampleInstalled [''bash'', ''vim''] exampleUpgradable)
   \<and> NeedsUpdate (CombinePackageData exampleInstalled [''bash'', ''vim''] exampleUpgradable ! 1)
       = False
   \<and> length exampleUpgradable = 1"
proof -
  have h: "(1::nat) < length (CombinePackageData exampleInstalled [''bash'', ''vim''] exampleUpgradable)"
    by (simp add: exampleCombined)
  from CombinePackageData_needsUpdate [OF h] show ?thesis
    using h by (simp add: exampleUpgradable_def)
qed

text \<open>
  Claim C3 as stated ("for every upgradable sequence, every entry that comes from it has
  \<^verbatim>\<open>NeedsUpdate = true\<close>") fails: an upgradable entry whose flag is false is copied as
  it is.
\<close>

theorem CombinePackageData_needsUpdate_counterexample:
  "CombinePackageData Map.empty []
     [\<lparr>Name = ''vim'', Description = [], CurrentVersion = ''8.2.16'',
       AvailableVersion = [], NeedsUpdate = False, IsSecurityUpdate = False\<rparr>]
   = [\<lparr>Name = ''vim'', Description = [], CurrentVersion = ''8.2.16'',
       AvailableVersion = [], NeedsUpdate = False, IsSecurityUpdate = False\<rparr>]"
  by (simp add: CombinePackageData_def)

text \<open>
  Claim C4. For every index \<open>i\<close> of the upgradable list, entry \<open>i\<close> of the result is
  \<open>upgradable[i]\<close> in every field but the description; the description is the installed
  entry's when \<open>upgradable[i]\<close> has none and the installed map has the name, and the one of
  \<open>upgradable[i]\<close> otherwise.
\<close>

theorem CombinePackageData_upgradable_frame:
  assumes "i < length upgradable"
  shows "i < length (CombinePackageData installed keyOrder upgradable)
       \<and> CombinePackageData installed keyOrder upgradable ! i
           = (upgradable ! i)\<lparr>Description :=
                (if Description (upgradable ! i) = [] \<and> installed (Name (upgradable ! i)) \<noteq> None
                 then Description (the (installed (Name (upgradable ! i))))
                 else Description (upgradable ! i))\<rparr>"
  using assms
  by (auto simp add: CombinePackageData_eq nth_append enrich_def split: option.splits)

theorem CombinePackageData_upgradable_frame_witness:
  "(0::nat) < length exampleUpgradable
   \<and> CombinePackageData exampleInstalled [''bash'', ''vim''] exampleUpgradable ! 0
       = (exampleUpgradable ! 0)\<lparr>Description := ''Vi IMproved''\<rparr>"
proof -
  have h: "(0::nat) < length exampleUpgradable"
    by (simp add: exampleUpgradable_def)
  from CombinePackageData_upgradable_frame [OF h, of exampleInstalled "[''bash'', ''vim'']"]
  show ?thesis using h by (simp add: exampleUpgradable_def exampleInstalled_def)
qed

section \<open>Properties of the Windows Update source\<close>

lemma parseUpdate_None: "(snd (parseUpdate update criteria) = None) = (Title update = None)"
  by (simp add: parseUpdate_def Let_def split: option.splits)

lemma parseUpdate_log:
  "fst (parseUpdate update criteria) = (if Title update = None then [WarnTitleFailed] else [])"
  by (simp add: parseUpdate_def Let_def split: option.splits)

lemma updatesLoop_eq:
  "updatesLoop updates criteria idxs (logs, packages) =
     (logs @ map (warningAt updates) (filter (\<lambda>i. \<not> readable updates i) idxs),
      packages @ map (packageAt updates criteria) (filter (readable updates) idxs))"
proof (induction idxs arbitrary: logs packages)
  case Nil
  show ?case by simp
next
  case (Cons i idxs)
  show ?case
  proof (cases "Item updates (int i)")
    case None
    then show ?thesis
      by (simp add: Cons.IH readable_def warningAt_def)
  next
    case (Some update)
    obtain lg r where p: "parseUpdate update criteria = (lg, r)"
      by (cases "parseUpdate update criteria")
    from p have r: "(r = None) = (Title update = None)"
      using parseUpdate_None [of update criteria] by simp
    from p have l: "lg = (if Title update = None then [WarnTitleFailed] else [])"
      using parseUpdate_log [of update criteria] by simp
    show ?thesis
    proof (cases r)
      case None
      with Some p r l show ?thesis
        by (simp add: Cons.IH readable_def warningAt_def)
    next
      case (Some pkg)
      with \<open>Item updates (int i) = Some update\<close> p r l show ?thesis
        by (simp add: Cons.IH readable_def packageAt_def)
    qed
  qed
qed

lemma searchUpdates_ready:
  assumes "sessionReady session" "Search session = Some (Some updates)"
    "Count updates = Some count" "0 \<le> count" "count \<le> MakeSliceLimit session"
  shows "searchUpdates session criteria =
     ([DebugSearching criteria, DebugFound count criteria] @
        map (warningAt updates) (filter (\<lambda>i. \<not> readable updates i) [0..<nat count]),
      Return (Inr (map (packageAt updates criteria) (filter (readable updates) [0..<nat count]))))"
  using assms by (auto simp: searchUpdates_def sessionReady_def updatesLoop_eq)

lemma searchUpdates_Inl:
  "(\<exists>err. snd (searchUpdates session criteria) = Return (Inl err)) =
     (\<not> (sessionReady session \<and>
         (\<exists>updates count. Search session = Some (Some updates) \<and> Count updates = Some count)))"
  by (auto simp: searchUpdates_def sessionReady_def split: option.splits prod.splits)

lemma searchUpdates_Panic:
  "(snd (searchUpdates session criteria) = Panic) =
     (sessionReady session \<and>
      (\<exists>updates count. Search session = Some (Some updates) \<and> Count updates = Some count \<and>
         (count < 0 \<or> MakeSliceLimit session < count)))"
  by (auto simp: searchUpdates_def sessionReady_def split: option.splits prod.splits)

text \<open>
  Claim C9. When the session, the searcher, the search and the collection are there and
  the count is one \<^verbatim>\<open>make\<close> accepts, \<^verbatim>\<open>searchUpdates\<close> returns a nil error and the
  packages of exactly the readable items, in their order, and logs one warning for each
  item it skips (a failed \<^verbatim>\<open>Item\<close> or a failed \<^verbatim>\<open>Title\<close>); it returns an error exactly
  when the session, the searcher, the search or the collection fails, whatever the items
  do; it panics exactly when the collection reports a count that \<^verbatim>\<open>make\<close> refuses,
  again whatever the items do; and \<^verbatim>\<open>parseUpdate\<close> gives up on an item exactly when
  its \<^verbatim>\<open>Title\<close> fails to read.
\<close>

theorem searchUpdates_skips_unreadable_items:
  "(\<forall>updates count.
      sessionReady session \<and> Search session = Some (Some updates) \<and> Count updates = Some count \<and>
      0 \<le> count \<and> count \<le> MakeSliceLimit session \<longrightarrow>
        snd (searchUpdates session criteria) =
          Return (Inr (map (packageAt updates criteria)
                         (filter (readable updates) [0..<nat count]))) \<and>
        filter isWarning (fst (searchUpdates session criteria)) =
          map (warningAt updates) (filter (\<lambda>i. \<not> readable updates i) [0..<nat count]))
   \<and> ((\<exists>err. snd (searchUpdates session criteria) = Return (Inl err)) =
        (\<not> (sessionReady session \<and>
            (\<exists>updates count. Search session = Some (Some updates) \<and> Count updates = Some count))))
   \<and> ((snd (searchUpdates session criteria) = Panic) =
        (sessionReady session \<and>
         (\<exists>updates count. Search session = Some (Some updates) \<and> Count updates = Some count \<and>
            (count < 0 \<or> MakeSliceLimit session < count))))
   \<and> ((snd (parseUpdate update criteria) = None) = (Title update = None))"
proof -
  have w: "filter isWarning (map (warningAt updates) idxs) = map (warningAt updates) idxs"
    for updates idxs
    by (induction idxs) (auto simp: isWarning_def warningAt_def)
  have "snd (searchUpdates session criteria) =
          Return (Inr (map (packageAt updates criteria)
                         (filter (readable updates) [0..<nat count]))) \<and>
        filter isWarning (fst (searchUpdates session criteria)) =
          map (warningAt updates) (filter (\<lambda>i. \<not> readable updates i) [0..<nat count])"
    if "sessionReady session \<and> Search session = Some (Some updates) \<and>
        Count updates = Some count \<and> 0 \<le> count \<and> count \<le> MakeSliceLimit session"
    for updates count
    using that by (simp add: searchUpdates_ready isWarning_def w)
  then show ?thesis
    using searchUpdates_Inl [of session criteria] searchUpdates_Panic [of session criteria]
      parseUpdate_None [of update criteria]
    by blast
qed

theorem searchUpdates_skips_unreadable_items_witness:
  "sessionReady (sessionWith [None, Some exampleNoTitleUpdate, Some exampleGoodUpdate])
   \<and> Search (sessionWith [None, Some exampleNoTitleUpdate, Some exampleGoodUpdate]) =
       Some (Some \<lparr>Count = Some 3,
                    Items = [None, Some exampleNoTitleUpdate, Some exampleGoodUpdate]\<rparr>)
   \<and> (3 :: int) \<le>
       MakeSliceLimit (sessionWith [None, Some exampleNoTitleUpdate, Some exampleGoodUpdate])
   \<and> snd (searchUpdates (sessionWith [None, Some exampleNoTitleUpdate, Some exampleGoodUpdate])
            ''IsInstalled=1'') =
       Return (Inr [\<lparr>Name = ''KB5034441'', Description = ''2024-01 Security Update (KB5034441)'',
             CurrentVersion = ''a1b2c3.200'', AvailableVersion = [], NeedsUpdate = False,
             IsSecurityUpdate = True\<rparr>])
   \<and> filter isWarning
         (fst (searchUpdates (sessionWith [None, Some exampleNoTitleUpdate, Some exampleGoodUpdate])
                 ''IsInstalled=1'')) =
       [WarnItemFailed 0, WarnTitleFailed]
   \<and> snd (searchUpdates negativeCountSession ''IsInstalled=1'') = Panic"
proof -
  let ?items = "[None, Some exampleNoTitleUpdate, Some exampleGoodUpdate]"
  let ?updates = "\<lparr>Count = Some 3, Items = ?items\<rparr>"
  have r: "sessionReady (sessionWith ?items)"
    by (simp add: sessionReady_def sessionWith_def)
  have s: "Search (sessionWith ?items) = Some (Some ?updates)"
    by (simp add: sessionWith_def)
  have c: "Count ?updates = Some 3"
    by simp
  have n: "(0 :: int) \<le> 3"
    by simp
  have m: "(3 :: int) \<le> MakeSliceLimit (sessionWith ?items)"
    by (simp add: sessionWith_def)
  have v: "map (packageAt ?updates ''IsInstalled=1'') (filter (readable ?updates) [0..<nat 3]) =
      [\<lparr>Name = ''KB5034441'', Description = ''2024-01 Security Update (KB5034441)'',
        CurrentVersion = ''a1b2c3.200'', AvailableVersion = [], NeedsUpdate = False,
        IsSecurityUpdate = True\<rparr>]"
    by code_simp
  have w: "map (warningAt ?updates) (filter (\<lambda>i. \<not> readable ?updates i) [0..<nat 3]) =
      [WarnItemFailed 0, WarnTitleFailed]"
    by code_simp
  note t = searchUpdates_skips_unreadable_items
             [of "sessionWith ?items" "''IsInstalled=1''", THEN conjunct1, rule_format,
              OF conjI [OF r conjI [OF s conjI [OF c conjI [OF n m]]]]]
  from t have a: "snd (searchUpdates (sessionWith ?items) ''IsInstalled=1'') =
      Return (Inr [\<lparr>Name = ''KB5034441'', Description = ''2024-01 Security Update (KB5034441)'',
            CurrentVersion = ''a1b2c3.200'', AvailableVersion = [], NeedsUpdate = False,
            IsSecurityUpdate = True\<rparr>])"
    and b: "filter isWarning (fst (searchUpdates (sessionWith ?items) ''IsInstalled=1'')) =
      [WarnItemFailed 0, WarnTitleFailed]"
    unfolding v w by simp_all
  have p: "snd (searchUpdates negativeCountSession ''IsInstalled=1'') = Panic"
    by code_simp
  show ?thesis
    by (intro conjI r s m a b p)
qed

lemma GetPackages_returns:
  assumes "snd (GetInstalledUpdates w) = Return r1" and "snd (GetAvailableUpdates w) = Return r2"
  shows "snd (GetPackages w) = Return (orEmpty r1 @ orEmpty r2, None)"
proof -
  obtain l1 where a: "GetInstalledUpdates w = (l1, Return r1)"
    using assms(1) by (cases "GetInstalledUpdates w") simp
  obtain l2 where b: "GetAvailableUpdates w = (l2, Return r2)"
    using assms(2) by (cases "GetAvailableUpdates w") simp
  show ?thesis
    by (simp add: GetPackages_def a b orEmpty_def split: sum.splits)
qed

lemma GetPackages_Panic:
  "(snd (GetPackages w) = Panic) =
     (snd (GetInstalledUpdates w) = Panic \<or> snd (GetAvailableUpdates w) = Panic)"
proof (cases "GetInstalledUpdates w")
  case (Pair l1 o1)
  show ?thesis
  proof (cases o1)
    case Panic
    with Pair show ?thesis by (simp add: GetPackages_def)
  next
    case (Return r1)
    obtain l2 o2 where b: "GetAvailableUpdates w = (l2, o2)"
      by (cases "GetAvailableUpdates w")
    with Pair Return show ?thesis
      by (cases o2) (simp_all add: GetPackages_def split: sum.splits prod.splits)
  qed
qed

lemma GetPackages_nil_error:
  "snd (GetPackages w) = Return (pkgs, err) \<Longrightarrow> err = None"
  by (auto simp: GetPackages_def split: prod.splits sum.splits go_result.splits)

text \<open>
  Claim C10. \<^verbatim>\<open>Manager.GetPackages\<close> never returns an error that is not nil; whatever
  the two searches return, it returns the result of the installed search followed by the
  result of the available search, with the empty list in the place of a failed search,
  and a nil error; it does not return only when a search does not (a panic in
  \<^verbatim>\<open>searchUpdates\<close>).
\<close>

theorem GetPackages_never_fails:
  "(\<forall>pkgs err. snd (GetPackages w) = Return (pkgs, err) \<longrightarrow> err = None)
   \<and> (\<forall>r1 r2.
        snd (GetInstalledUpdates w) = Return r1 \<and> snd (GetAvailableUpdates w) = Return r2 \<longrightarrow>
          snd (GetPackages w) = Return (orEmpty r1 @ orEmpty r2, None))
   \<and> ((snd (GetPackages w) = Panic) =
        (snd (GetInstalledUpdates w) = Panic \<or> snd (GetAvailableUpdates w) = Panic))
   \<and> snd (GetPackages (hostWith failedSession failedSession)) = Return ([], None)
   \<and> snd (GetPackages (hostWith failedSession (sessionWith [Some exampleGoodUpdate]))) =
       Return ([\<lparr>Name = ''KB5034441'', Description = ''2024-01 Security Update (KB5034441)'',
          CurrentVersion = [], AvailableVersion = ''a1b2c3.200'', NeedsUpdate = True,
          IsSecurityUpdate = True\<rparr>], None)"
proof (intro conjI allI impI)
  fix pkgs err
  assume "snd (GetPackages w) = Return (pkgs, err)"
  then show "err = None"
    by (rule GetPackages_nil_error)
next
  fix r1 r2
  assume "snd (GetInstalledUpdates w) = Return r1 \<and> snd (GetAvailableUpdates w) = Return r2"
  then show "snd (GetPackages w) = Return (orEmpty r1 @ orEmpty r2, None)"
    by (intro GetPackages_returns) simp_all
next
  show "(snd (GetPackages w) = Panic) =
        (snd (GetInstalledUpdates w) = Panic \<or> snd (GetAvailableUpdates w) = Panic)"
    by (rule GetPackages_Panic)
next
  show "snd (GetPackages (hostWith failedSession failedSession)) = Return ([], None)"
    by code_simp
next
  show "snd (GetPackages (hostWith failedSession (sessionWith [Some exampleGoodUpdate]))) =
       Return ([\<lparr>Name = ''KB5034441'', Description = ''2024-01 Security Update (KB5034441)'',
          CurrentVersion = [], AvailableVersion = ''a1b2c3.200'', NeedsUpdate = True,
          IsSecurityUpdate = True\<rparr>], None)"
    by code_simp
qed

theorem GetPackages_never_fails_witness:
  "snd (GetInstalledUpdates (hostWith failedSession (sessionWith [Some exampleGoodUpdate]))) =
     Return (Inl CreateUpdateSessionFailed)
   \<and> snd (GetAvailableUpdates (hostWith failedSession (sessionWith [Some exampleGoodUpdate]))) =
       Return (Inr [\<lparr>Name = ''KB5034441'',
          Description = ''2024-01 Security Update (KB5034441)'',
          CurrentVersion = [], AvailableVersion = ''a1b2c3.200'', NeedsUpdate = True,
          IsSecurityUpdate = True\<rparr>])
   \<and> snd (GetPackages (hostWith failedSession (sessionWith [Some exampleGoodUpdate]))) =
       Return ([] @ [\<lparr>Name = ''KB5034441'',
          Description = ''2024-01 Security Update (KB5034441)'',
          CurrentVersion = [], AvailableVersion = ''a1b2c3.200'', NeedsUpdate = True,
          IsSecurityUpdate = True\<rparr>], None)"
proof -
  let ?w = "hostWith failedSession (sessionWith [Some exampleGoodUpdate])"
  let ?p = "\<lparr>Name = ''KB5034441'', Description = ''2024-01 Security Update (KB5034441)'',
          CurrentVersion = [], AvailableVersion = ''a1b2c3.200'', NeedsUpdate = True,
          IsSecurityUpdate = True\<rparr>"
  have a: "snd (GetInstalledUpdates ?w) = Return (Inl CreateUpdateSessionFailed)"
    by code_simp
  have b: "snd (GetAvailableUpdates ?w) = Return (Inr [?p])"
    by code_simp
  have c: "snd (GetPackages ?w) =
      Return (orEmpty (Inl CreateUpdateSessionFailed) @ orEmpty (Inr [?p]), None)"
    by (rule GetPackages_never_fails [of ?w, THEN conjunct2, THEN conjunct1, rule_format,
          OF conjI [OF a b]])
  have d: "snd (GetPackages ?w) = Return ([] @ [?p], None)"
    using c by (simp add: orEmpty_def)
  show ?thesis
    by (intro conjI a b d)
qed

text \<open>
  Claim C5, as the code has it. \<^verbatim>\<open>Manager.GetPackages\<close> appends the two search results
  and removes nothing: whatever the two searches return, the names of the list it
  returns are the names of the installed results followed by those of the available
  results, so the names of the result are distinct exactly when they are distinct in each
  search result and no name is in both.
\<close>

theorem GetPackages_concatenates:
  assumes "snd (GetInstalledUpdates w) = Return r1" and "snd (GetAvailableUpdates w) = Return r2"
  shows "map Name (returnedPackages (snd (GetPackages w))) =
           map Name (orEmpty r1) @ map Name (orEmpty r2)
       \<and> length (returnedPackages (snd (GetPackages w))) =
           length (orEmpty r1) + length (orEmpty r2)
       \<and> distinct (map Name (returnedPackages (snd (GetPackages w)))) =
           (distinct (map Name (orEmpty r1)) \<and> distinct (map Name (orEmpty r2)) \<and>
            Name ` set (orEmpty r1) \<inter> Name ` set (orEmpty r2) = {})"
  by (simp add: GetPackages_returns [OF assms] returnedPackages_def)

theorem GetPackages_concatenates_witness:
  "snd (GetInstalledUpdates
          (hostWith (sessionWith [Some exampleGoodUpdate])
             (sessionWith [Some exampleNoIdentityUpdate]))) =
     Return (Inr [\<lparr>Name = ''KB5034441'', Description = ''2024-01 Security Update (KB5034441)'',
             CurrentVersion = ''a1b2c3.200'', AvailableVersion = [], NeedsUpdate = False,
             IsSecurityUpdate = True\<rparr>])
   \<and> snd (GetAvailableUpdates
          (hostWith (sessionWith [Some exampleGoodUpdate])
             (sessionWith [Some exampleNoIdentityUpdate]))) =
     Return (Inr [\<lparr>Name = ''Driver Update'', Description = ''Driver Update'',
             CurrentVersion = [], AvailableVersion = [], NeedsUpdate = True,
             IsSecurityUpdate = False\<rparr>])
   \<and> map Name (returnedPackages (snd (GetPackages
          (hostWith (sessionWith [Some exampleGoodUpdate])
             (sessionWith [Some exampleNoIdentityUpdate]))))) =
       [''KB5034441'', ''Driver Update'']"
proof -
  let ?w = "hostWith (sessionWith [Some exampleGoodUpdate])
              (sessionWith [Some exampleNoIdentityUpdate])"
  let ?p = "\<lparr>Name = ''KB5034441'', Description = ''2024-01 Security Update (KB5034441)'',
             CurrentVersion = ''a1b2c3.200'', AvailableVersion = [], NeedsUpdate = False,
             IsSecurityUpdate = True\<rparr>"
  let ?q = "\<lparr>Name = ''Driver Update'', Description = ''Driver Update'',
             CurrentVersion = [], AvailableVersion = [], NeedsUpdate = True,
             IsSecurityUpdate = False\<rparr>"
  have a: "snd (GetInstalledUpdates ?w) = Return (Inr [?p])"
    by code_simp
  have b: "snd (GetAvailableUpdates ?w) = Return (Inr [?q])"
    by code_simp
  have c: "map Name (returnedPackages (snd (GetPackages ?w))) =
      map Name (orEmpty (Inr [?p])) @ map Name (orEmpty (Inr [?q]))"
    by (rule GetPackages_concatenates [OF a b, THEN conjunct1])
  have d: "map Name (returnedPackages (snd (GetPackages ?w))) = [''KB5034441'', ''Driver Update'']"
    using c by (simp add: orEmpty_def)
  show ?thesis
    by (intro conjI a b d)
qed

text \<open>
  Claim C5 as stated ("each name at most once, even when the same update is in both
  search results") fails: with one update in both results, its name is there twice.
\<close>

theorem GetPackages_duplicate_name_counterexample:
  "snd (GetPackages
      (hostWith (sessionWith [Some exampleGoodUpdate]) (sessionWith [Some exampleGoodUpdate])))
   = Return
       ([\<lparr>Name = ''KB5034441'', Description = ''2024-01 Security Update (KB5034441)'',
          CurrentVersion = ''a1b2c3.200'', AvailableVersion = [], NeedsUpdate = False,
          IsSecurityUpdate = True\<rparr>,
         \<lparr>Name = ''KB5034441'', Description = ''2024-01 Security Update (KB5034441)'',
          CurrentVersion = [], AvailableVersion = ''a1b2c3.200'', NeedsUpdate = True,
          IsSecurityUpdate = True\<rparr>], None)"
  by code_simp

text \<open>
  Claim C1 at two inputs the code can meet. An installed Windows update whose
  \<^verbatim>\<open>Identity\<close> fails to read gets the empty version, and \<^verbatim>\<open>GetPackages\<close> returns it
  with \<^verbatim>\<open>NeedsUpdate = false\<close> and no current version. A \<^verbatim>\<open>dpkg-query\<close> line with an
  empty version field (two spaces after the name) gives an installed package with no
  current version, which \<^verbatim>\<open>CombinePackageData\<close> returns with \<^verbatim>\<open>NeedsUpdate = false\<close>.
\<close>

theorem invariant_broken_by_empty_version:
  "snd (GetPackages
      (hostWith (sessionWith [Some exampleNoIdentityUpdate]) (sessionWith []))) =
     Return ([\<lparr>Name = ''Driver Update'', Description = ''Driver Update'', CurrentVersion = [],
       AvailableVersion = [], NeedsUpdate = False, IsSecurityUpdate = False\<rparr>], None)
   \<and> list_all packageInvariant
        (returnedPackages (snd (GetPackages
           (hostWith (sessionWith [Some exampleNoIdentityUpdate]) (sessionWith []))))) = False
   \<and> CombinePackageData (APTManager_parseInstalledPackages ''vim  Vi IMproved'') [''vim'']
       (APTManager_parseAPTUpgrade []) =
     [\<lparr>Name = ''vim'', Description = [], CurrentVersion = [], AvailableVersion = [],
       NeedsUpdate = False, IsSecurityUpdate = False\<rparr>]
   \<and> list_all packageInvariant
        (CombinePackageData (APTManager_parseInstalledPackages ''vim  Vi IMproved'') [''vim'']
           (APTManager_parseAPTUpgrade [])) = False"
  by code_simp

text \<open>
  Where the invariant does hold: \<^verbatim>\<open>CombinePackageData\<close> keeps it when every upgradable
  entry needs an update to a version that is not empty and every installed entry has a
  current version that is not empty.
\<close>

lemma CombinePackageData_keeps_invariant:
  assumes "\<forall>u\<in>set upgradable. NeedsUpdate u \<and> AvailableVersion u \<noteq> []"
    and "\<forall>p\<in>ran installed. CurrentVersion p \<noteq> []"
  shows "list_all packageInvariant (CombinePackageData installed keyOrder upgradable)"
proof -
  have "packageInvariant (enrich installed u)" if "u \<in> set upgradable" for u
    using that assms(1) by (auto simp: packageInvariant_def enrich_def split: option.splits)
  moreover have "packageInvariant (installedOnly (the (installed k)))"
    if "installed k \<noteq> None" for k
    using that assms(2) by (auto simp: packageInvariant_def installedOnly_def ran_def)
  ultimately show ?thesis
    by (auto simp: CombinePackageData_eq list_all_iff)
qed

section \<open>Properties of the APT source\<close>

subsection \<open>parseAPTUpgrade\<close>

lemma CutPrefix_None: "\<not> HasPrefix f p \<Longrightarrow> CutPrefix f p = None"
  by (simp add: CutPrefix_def)

lemma CutPrefix_Some: "HasPrefix f p \<Longrightarrow> CutPrefix f p = Some (drop (length p) f)"
  by (simp add: CutPrefix_def)

lemma TrimSuffix_bracket: "HasSuffix l '']'' \<Longrightarrow> TrimSuffix l '']'' = butlast l"
  by (simp add: TrimSuffix_def butlast_conv_take)

lemma currentVersionLoop_skip:
  "\<forall>g\<in>set pre. \<not> HasPrefix g ''['' \<Longrightarrow>
     currentVersionLoop (pre @ rest) = currentVersionLoop rest"
  by (induction pre) (simp_all add: CutPrefix_None)

lemma versionPartsLoop_closed:
  "\<forall>g\<in>set mid. \<not> HasSuffix g '']'' \<Longrightarrow> HasSuffix l '']'' \<Longrightarrow>
     versionPartsLoop (mid @ l # post) acc = acc @ mid @ [butlast l]"
  by (induction mid arbitrary: acc) (simp_all add: TrimSuffix_bracket)

lemma availableVersionLoop_skip:
  "\<forall>g\<in>set pre. \<not> HasPrefix g ''('' \<Longrightarrow>
     availableVersionLoop (pre @ rest) = availableVersionLoop rest"
  by (induction pre) (simp_all add: CutPrefix_None)

lemma Trim_brackets:
  assumes "v = [] \<or> (hd v \<notin> set ''[]'' \<and> last v \<notin> set ''[]'')"
  shows "Trim (''['' @ v @ '']'') ''[]'' = v"
proof (cases "v = []")
  case True
  then show ?thesis by (simp add: Trim_def)
next
  case False
  with assms have h: "hd v \<notin> set ''[]''" and l: "last v \<notin> set ''[]''"
    by blast+
  from False h have "dropWhile (\<lambda>c. c \<in> set ''[]'') (v @ '']'') = v @ '']''"
    by (cases v) auto
  moreover from False l have "dropWhile (\<lambda>c. c \<in> set ''[]'') (rev v) = rev v"
    by (cases v rule: rev_cases) auto
  ultimately show ?thesis
    by (simp add: Trim_def)
qed

lemma HasPrefix_bracketed: "HasPrefix (''['' @ v @ '']'') ''[''"
  by (simp add: HasPrefix_def)

lemma HasSuffix_bracketed: "HasSuffix (''['' @ v @ '']'') '']''"
  by (simp add: HasSuffix_def)

lemma exampleUpgradeFields:
  "Fields (TrimSpace
     ''Inst vim [2:8.2.3995-1ubuntu2.16] (2:8.2.3995-1ubuntu2.17 Ubuntu:22.04/jammy-updates [amd64])'') =
   [''Inst'', ''vim'', ''[2:8.2.3995-1ubuntu2.16]'', ''(2:8.2.3995-1ubuntu2.17'',
    ''Ubuntu:22.04/jammy-updates'', ''[amd64])'']"
  by code_simp

lemma exampleUpgradeParsed:
  "APTManager_parseAPTUpgrade
     ''Inst vim [2:8.2.3995-1ubuntu2.16] (2:8.2.3995-1ubuntu2.17 Ubuntu:22.04/jammy-updates [amd64])'' =
   [\<lparr>Name = ''vim'', Description = [], CurrentVersion = ''2:8.2.3995-1ubuntu2.16'',
     AvailableVersion = ''2:8.2.3995-1ubuntu2.17'', NeedsUpdate = True,
     IsSecurityUpdate = False\<rparr>]"
  by code_simp

text \<open>
  How \<^verbatim>\<open>parseAPTUpgrade\<close> reads a line that starts with \<^verbatim>\<open>Inst\<close> and a space, with
  \<open>fields\<close> its white space separated tokens. When the first token that starts with
  \<^verbatim>\<open>[\<close> also ends with \<^verbatim>\<open>]\<close>, the current version is that token with every bracket
  trimmed from its two ends (the text between the brackets, when that text has no
  bracket at its ends); when it does not and a later token ends with \<^verbatim>\<open>]\<close>, the
  current version is the tokens from the one to the first such other, joined with single
  spaces, without the opening and the closing bracket; when no token starts with
  \<^verbatim>\<open>[\<close>, it is empty. The available version is the first token that starts with
  \<^verbatim>\<open>(\<close>, without it, and empty when there is none. A candidate is emitted exactly
  when there are at least four tokens and the name (the second token), the current and
  the available version are not empty.
\<close>

lemma parseAPTUpgrade_versions:
  fixes fields :: "string list"
  assumes "HasPrefix (TrimSpace text) ''Inst ''" and "Fields (TrimSpace text) = fields"
  shows "(\<forall>pre f post.
            fields = pre @ f # post \<and> (\<forall>g\<in>set pre. \<not> HasPrefix g ''['') \<and>
            HasPrefix f ''['' \<and> HasSuffix f '']'' \<longrightarrow>
              currentVersionLoop fields = Trim f ''[]'')
       \<and> (\<forall>pre v post.
            fields = pre @ (''['' @ v @ '']'') # post \<and> (\<forall>g\<in>set pre. \<not> HasPrefix g ''['') \<and>
            (v = [] \<or> (hd v \<notin> set ''[]'' \<and> last v \<notin> set ''[]'')) \<longrightarrow>
              currentVersionLoop fields = v)
       \<and> (\<forall>pre f mid l post.
            fields = pre @ f # mid @ l # post \<and> (\<forall>g\<in>set pre. \<not> HasPrefix g ''['') \<and>
            HasPrefix f ''['' \<and> \<not> HasSuffix f '']'' \<and>
            (\<forall>g\<in>set mid. \<not> HasSuffix g '']'') \<and> HasSuffix l '']'' \<longrightarrow>
              currentVersionLoop fields = Join (drop 1 f # mid @ [butlast l]) '' '')
       \<and> (\<forall>pre f post.
            fields = pre @ f # post \<and> (\<forall>g\<in>set pre. \<not> HasPrefix g ''('') \<and>
            HasPrefix f ''('' \<longrightarrow>
              availableVersionLoop fields = drop 1 f)
       \<and> ((\<forall>g\<in>set fields. \<not> HasPrefix g ''['') \<longrightarrow> currentVersionLoop fields = [])
       \<and> ((\<forall>g\<in>set fields. \<not> HasPrefix g ''('') \<longrightarrow> availableVersionLoop fields = [])
       \<and> parseAPTUpgradeLine text =
           (if 4 \<le> length fields \<and> fields ! 1 \<noteq> [] \<and> currentVersionLoop fields \<noteq> [] \<and>
               availableVersionLoop fields \<noteq> []
            then Some \<lparr>Name = fields ! 1, Description = [],
                       CurrentVersion = currentVersionLoop fields,
                       AvailableVersion = availableVersionLoop fields, NeedsUpdate = True,
                       IsSecurityUpdate = Contains (ToLower (TrimSpace text)) ''security''\<rparr>
            else None)
       \<and> APTManager_parseAPTUpgrade
           ''Inst vim [2:8.2.3995-1ubuntu2.16] (2:8.2.3995-1ubuntu2.17 Ubuntu:22.04/jammy-updates [amd64])'' =
           [\<lparr>Name = ''vim'', Description = [], CurrentVersion = ''2:8.2.3995-1ubuntu2.16'',
             AvailableVersion = ''2:8.2.3995-1ubuntu2.17'', NeedsUpdate = True,
             IsSecurityUpdate = False\<rparr>]"
proof (intro conjI allI impI)
  fix pre f post
  assume "fields = pre @ f # post \<and> (\<forall>g\<in>set pre. \<not> HasPrefix g ''['') \<and>
            HasPrefix f ''['' \<and> HasSuffix f '']''"
  then show "currentVersionLoop fields = Trim f ''[]''"
    by (simp add: currentVersionLoop_skip)
next
  fix pre v post
  assume a: "fields = pre @ (''['' @ v @ '']'') # post \<and> (\<forall>g\<in>set pre. \<not> HasPrefix g ''['') \<and>
            (v = [] \<or> (hd v \<notin> set ''[]'' \<and> last v \<notin> set ''[]''))"
  then have "currentVersionLoop fields = currentVersionLoop ((''['' @ v @ '']'') # post)"
    using currentVersionLoop_skip [of pre "(''['' @ v @ '']'') # post"] by simp
  also have "\<dots> = Trim (''['' @ v @ '']'') ''[]''"
    using HasPrefix_bracketed [of v] HasSuffix_bracketed [of v]
    by (simp only: currentVersionLoop.simps if_True simp_thms)
  also have "\<dots> = v"
    using a by (intro Trim_brackets) blast
  finally show "currentVersionLoop fields = v" .
next
  fix pre f mid l post
  assume a: "fields = pre @ f # mid @ l # post \<and> (\<forall>g\<in>set pre. \<not> HasPrefix g ''['') \<and>
            HasPrefix f ''['' \<and> \<not> HasSuffix f '']'' \<and>
            (\<forall>g\<in>set mid. \<not> HasSuffix g '']'') \<and> HasSuffix l '']''"
  then have "versionPartsLoop (mid @ l # post) [drop 1 f] = [drop 1 f] @ mid @ [butlast l]"
    by (intro versionPartsLoop_closed) simp_all
  with a show "currentVersionLoop fields = Join (drop 1 f # mid @ [butlast l]) '' ''"
    by (simp add: currentVersionLoop_skip CutPrefix_Some)
next
  fix pre f post
  assume "fields = pre @ f # post \<and> (\<forall>g\<in>set pre. \<not> HasPrefix g ''('') \<and> HasPrefix f ''(''"
  then show "availableVersionLoop fields = drop 1 f"
    by (simp add: availableVersionLoop_skip CutPrefix_Some)
next
  assume "\<forall>g\<in>set fields. \<not> HasPrefix g ''[''"
  then show "currentVersionLoop fields = []"
    using currentVersionLoop_skip [of fields "[]"] by simp
next
  assume "\<forall>g\<in>set fields. \<not> HasPrefix g ''(''"
  then show "availableVersionLoop fields = []"
    using availableVersionLoop_skip [of fields "[]"] by simp
next
  show "parseAPTUpgradeLine text =
           (if 4 \<le> length fields \<and> fields ! 1 \<noteq> [] \<and> currentVersionLoop fields \<noteq> [] \<and>
               availableVersionLoop fields \<noteq> []
            then Some \<lparr>Name = fields ! 1, Description = [],
                       CurrentVersion = currentVersionLoop fields,
                       AvailableVersion = availableVersionLoop fields, NeedsUpdate = True,
                       IsSecurityUpdate = Contains (ToLower (TrimSpace text)) ''security''\<rparr>
            else None)"
    using assms by (simp add: parseAPTUpgradeLine_def Let_def not_less)
next
  show "APTManager_parseAPTUpgrade
           ''Inst vim [2:8.2.3995-1ubuntu2.16] (2:8.2.3995-1ubuntu2.17 Ubuntu:22.04/jammy-updates [amd64])'' =
           [\<lparr>Name = ''vim'', Description = [], CurrentVersion = ''2:8.2.3995-1ubuntu2.16'',
             AvailableVersion = ''2:8.2.3995-1ubuntu2.17'', NeedsUpdate = True,
             IsSecurityUpdate = False\<rparr>]"
    by (rule exampleUpgradeParsed)
qed


lemma parseAPTUpgrade_versions_example:
  "HasPrefix (TrimSpace
     ''Inst vim [2:8.2.3995-1ubuntu2.16] (2:8.2.3995-1ubuntu2.17 Ubuntu:22.04/jammy-updates [amd64])'')
     ''Inst ''
   \<and> currentVersionLoop
        [''Inst'', ''vim'', ''[2:8.2.3995-1ubuntu2.16]'', ''(2:8.2.3995-1ubuntu2.17'',
         ''Ubuntu:22.04/jammy-updates'', ''[amd64])''] = ''2:8.2.3995-1ubuntu2.16''
   \<and> availableVersionLoop
        [''Inst'', ''vim'', ''[2:8.2.3995-1ubuntu2.16]'', ''(2:8.2.3995-1ubuntu2.17'',
         ''Ubuntu:22.04/jammy-updates'', ''[amd64])''] = ''2:8.2.3995-1ubuntu2.17''
   \<and> parseAPTUpgradeLine
        ''Inst vim [2:8.2.3995-1ubuntu2.16] (2:8.2.3995-1ubuntu2.17 Ubuntu:22.04/jammy-updates [amd64])'' =
       Some \<lparr>Name = ''vim'', Description = [], CurrentVersion = ''2:8.2.3995-1ubuntu2.16'',
             AvailableVersion = ''2:8.2.3995-1ubuntu2.17'', NeedsUpdate = True,
             IsSecurityUpdate = False\<rparr>
   \<and> HasPrefix (TrimSpace ''Inst vim [1.0 beta] (2.0 stable)'') ''Inst ''
   \<and> currentVersionLoop [''Inst'', ''vim'', ''[1.0'', ''beta]'', ''(2.0'', ''stable)''] =
       ''1.0 beta''"
proof -
  let ?l1 = "''Inst vim [2:8.2.3995-1ubuntu2.16] (2:8.2.3995-1ubuntu2.17 Ubuntu:22.04/jammy-updates [amd64])''"
  let ?f1 = "[''Inst'', ''vim'', ''[2:8.2.3995-1ubuntu2.16]'', ''(2:8.2.3995-1ubuntu2.17'',
              ''Ubuntu:22.04/jammy-updates'', ''[amd64])'']"
  let ?l2 = "''Inst vim [1.0 beta] (2.0 stable)''"
  let ?f2 = "[''Inst'', ''vim'', ''[1.0'', ''beta]'', ''(2.0'', ''stable)'']"
  have p1: "HasPrefix (TrimSpace ?l1) ''Inst ''"
    by code_simp
  have p2: "HasPrefix (TrimSpace ?l2) ''Inst ''"
    by code_simp
  have e2: "Fields (TrimSpace ?l2) = ?f2"
    by code_simp
  have s: "Contains (ToLower (TrimSpace ?l1)) ''security'' = False"
    by code_simp
  note t1 = parseAPTUpgrade_versions [OF p1 exampleUpgradeFields]
  note t2 = parseAPTUpgrade_versions [OF p2 e2]
  have h1: "?f1 = [''Inst'', ''vim''] @ ''[2:8.2.3995-1ubuntu2.16]'' #
        [''(2:8.2.3995-1ubuntu2.17'', ''Ubuntu:22.04/jammy-updates'', ''[amd64])''] \<and>
      (\<forall>g\<in>set [''Inst'', ''vim'']. \<not> HasPrefix g ''['') \<and>
      HasPrefix ''[2:8.2.3995-1ubuntu2.16]'' ''['' \<and> HasSuffix ''[2:8.2.3995-1ubuntu2.16]'' '']''"
    by (simp add: HasPrefix_def HasSuffix_def)
  have c1: "currentVersionLoop ?f1 = ''2:8.2.3995-1ubuntu2.16''"
    using t1 [THEN conjunct1, rule_format, OF h1] by (simp add: Trim_def)
  have h1': "?f1 = [''Inst'', ''vim''] @ (''['' @ ''2:8.2.3995-1ubuntu2.16'' @ '']'') #
        [''(2:8.2.3995-1ubuntu2.17'', ''Ubuntu:22.04/jammy-updates'', ''[amd64])''] \<and>
      (\<forall>g\<in>set [''Inst'', ''vim'']. \<not> HasPrefix g ''['') \<and>
      (''2:8.2.3995-1ubuntu2.16'' = [] \<or>
       (hd ''2:8.2.3995-1ubuntu2.16'' \<notin> set ''[]'' \<and> last ''2:8.2.3995-1ubuntu2.16'' \<notin> set ''[]''))"
    by (simp add: HasPrefix_def)
  have c1': "currentVersionLoop ?f1 = ''2:8.2.3995-1ubuntu2.16''"
    by (rule t1 [THEN conjunct2, THEN conjunct1, rule_format, OF h1'])
  have h2: "?f1 = [''Inst'', ''vim'', ''[2:8.2.3995-1ubuntu2.16]''] @ ''(2:8.2.3995-1ubuntu2.17'' #
        [''Ubuntu:22.04/jammy-updates'', ''[amd64])''] \<and>
      (\<forall>g\<in>set [''Inst'', ''vim'', ''[2:8.2.3995-1ubuntu2.16]'']. \<not> HasPrefix g ''('') \<and>
      HasPrefix ''(2:8.2.3995-1ubuntu2.17'' ''(''"
    by (simp add: HasPrefix_def)
  have a1: "availableVersionLoop ?f1 = ''2:8.2.3995-1ubuntu2.17''"
    using t1 [THEN conjunct2, THEN conjunct2, THEN conjunct2, THEN conjunct1, rule_format,
               OF h2]
    by simp
  have l1: "parseAPTUpgradeLine ?l1 =
      Some \<lparr>Name = ''vim'', Description = [], CurrentVersion = ''2:8.2.3995-1ubuntu2.16'',
            AvailableVersion = ''2:8.2.3995-1ubuntu2.17'', NeedsUpdate = True,
            IsSecurityUpdate = False\<rparr>"
    unfolding t1 [THEN conjunct2, THEN conjunct2, THEN conjunct2, THEN conjunct2,
                THEN conjunct2, THEN conjunct2, THEN conjunct1] c1 a1 s
    by simp
  have h3: "?f2 = [''Inst'', ''vim''] @ ''[1.0'' # [] @ ''beta]'' # [''(2.0'', ''stable)''] \<and>
      (\<forall>g\<in>set [''Inst'', ''vim'']. \<not> HasPrefix g ''['') \<and>
      HasPrefix ''[1.0'' ''['' \<and> \<not> HasSuffix ''[1.0'' '']'' \<and>
      (\<forall>g\<in>set []. \<not> HasSuffix g '']'') \<and> HasSuffix ''beta]'' '']''"
    by (simp add: HasPrefix_def HasSuffix_def)
  have c2: "currentVersionLoop ?f2 = ''1.0 beta''"
    using t2 [THEN conjunct2, THEN conjunct2, THEN conjunct1, rule_format, OF h3] by simp
  show ?thesis
    by (intro conjI p1 c1 a1 l1 p2 c2)
qed

text \<open>
  Claim C6 at the line APT prints for a package that an upgrade newly installs, which has
  no bracketed current version: \<^verbatim>\<open>Inst name (version repository [architecture])\<close>. The
  code looks for the current version "in brackets" among all the tokens: the first token
  that starts with \<^verbatim>\<open>[\<close> is the architecture, it ends with \<^verbatim>\<open>)\<close>, and the inner loop,
  which goes on "until we find the closing bracket", has no case for not finding it. The
  candidate is emitted, with the current version \<^verbatim>\<open>amd64])\<close>; when a later token of
  the line ends with \<^verbatim>\<open>]\<close>, with everything up to it.
\<close>

theorem parseAPTUpgrade_unclosed_bracket:
  "APTManager_parseAPTUpgrade ''Inst libfoo (1.2 Ubuntu:22.04/jammy [amd64])'' =
     [\<lparr>Name = ''libfoo'', Description = [], CurrentVersion = ''amd64])'',
       AvailableVersion = ''1.2'', NeedsUpdate = True, IsSecurityUpdate = False\<rparr>]
   \<and> APTManager_parseAPTUpgrade
        ''Inst libfoo (1.2 Ubuntu:22.04/jammy [amd64]) [libfoo:amd64 on libbar:amd64]'' =
     [\<lparr>Name = ''libfoo'', Description = [],
       CurrentVersion = ''amd64]) [libfoo:amd64 on libbar:amd64'',
       AvailableVersion = ''1.2'', NeedsUpdate = True, IsSecurityUpdate = False\<rparr>]"
  by code_simp

subsection \<open>parseInstalledPackages\<close>












section \<open>Properties of the DNF source\<close>

lemma scanInstalled_find:
  "set ks \<subseteq> dom installedPackages \<Longrightarrow>
     scanInstalled installedPackages (stripArch name) name ks [] =
       strategyScan installedPackages ks name"
proof (induction ks)
  case Nil
  show ?case by (simp add: strategyScan_def)
next
  case (Cons k ks)
  then obtain v where v: "installedPackages k = Some v"
    by auto
  from Cons have "scanInstalled installedPackages (stripArch name) name ks [] =
      strategyScan installedPackages ks name"
    by simp
  with v show ?case
    by (simp add: strategyScan_def stripArch_def hasArchSuffix_def Let_def lookupString_def)
qed

lemma listInstalledLoop_find:
  "listInstalledLoop name ls =
     (case find (\<lambda>l. Contains l name \<and> \<not> Contains l ''Installed'' \<and>
                      \<not> Contains l ''Available'' \<and> 2 \<le> length (Fields l)) ls of
        None \<Rightarrow> []
      | Some l \<Rightarrow> Fields l ! 1)"
  by (induction ls) (simp_all add: Let_def)

lemma resolveCurrentVersion_strategies:
  assumes "rangeOrder installedPackages keyOrder"
  shows "resolveCurrentVersion commandOutput packageManager installedPackages keyOrder name =
     firstNonEmpty
       [strategyExact installedPackages name, strategyStripped installedPackages name,
        strategyScan installedPackages keyOrder name,
        strategyCommand commandOutput packageManager name]"
proof -
  from assms have sub: "set keyOrder \<subseteq> dom installedPackages"
    by (simp add: rangeOrder_def)
  note scan = scanInstalled_find [OF sub, of name]
  have base: "(if hasArchSuffix name then take (nat (LastIndex name ''.'')) name else name) =
      stripArch name"
    by (simp add: stripArch_def)
  show ?thesis
    unfolding resolveCurrentVersion_def Let_def hasArchSuffix_def [symmetric] base
    by (simp add: firstNonEmpty_def strategyExact_def strategyStripped_def scan
        strategyCommand_def listInstalledLoop_find split: option.splits)
qed


lemma map_filter_concat:
  "List.map_filter f xs = concat (map (\<lambda>x. case f x of None \<Rightarrow> [] | Some y \<Rightarrow> [y]) xs)"
  by (induction xs) (simp_all add: map_filter_simps split: option.splits)

text \<open>
  Claim C8, as the code has it. A line of the \<^verbatim>\<open>check-update\<close> output that is a banner
  (empty, with \<^verbatim>\<open>Loaded plugins\<close> or \<^verbatim>\<open>Last metadata\<close> in it, or starting with
  \<^verbatim>\<open>Loading\<close>) or has fewer than three tokens gives nothing. On any other line, the
  current version of the candidate (the first token) is the result of the first strategy
  that succeeds, in the order: exact lookup; lookup without the architecture suffix, for
  a name whose last dot is not its first character; scan of the installed map; the
  \<^verbatim>\<open>list installed\<close> command, of whose output the first line counts that contains the
  name, is no header and has at least two tokens. The candidate is emitted, with
  \<^verbatim>\<open>NeedsUpdate = true\<close>, exactly when its name, that version and the available version
  (the second token) are not empty, and dropped otherwise; each line of the output gives
  its package or nothing, whatever the other lines do.
\<close>

theorem parseUpgradablePackages_resolution:
  fixes fields :: "string list"
  assumes "rangeOrder installedPackages keyOrder"
    and "Fields (TrimSpace text) = fields"
  shows "parseUpgradableLine commandOutput packageManager installedPackages keyOrder text =
          (if isBannerLine (TrimSpace text) \<or> length fields < 3 then None
           else
             let currentVersion =
                   firstNonEmpty
                     [strategyExact installedPackages (fields ! 0),
                      strategyStripped installedPackages (fields ! 0),
                      strategyScan installedPackages keyOrder (fields ! 0),
                      strategyCommand commandOutput packageManager (fields ! 0)]
             in if fields ! 0 \<noteq> [] \<and> currentVersion \<noteq> [] \<and> fields ! 1 \<noteq> [] then
                  Some \<lparr>Name = fields ! 0, Description = [], CurrentVersion = currentVersion,
                        AvailableVersion = fields ! 1, NeedsUpdate = True,
                        IsSecurityUpdate = Contains (ToLower (fields ! 2)) ''security''\<rparr>
                else None)
       \<and> DNFManager_parseUpgradablePackages commandOutput keyOrders output packageManager
            installedPackages =
          concat (map (\<lambda>(n, line).
                         case parseUpgradableLine commandOutput packageManager
                                installedPackages (keyOrders n) line of
                           None \<Rightarrow> []
                         | Some pkg \<Rightarrow> [pkg])
                    (enumerate 0 (ScannerLines output)))"
proof
  show "parseUpgradableLine commandOutput packageManager installedPackages keyOrder text =
          (if isBannerLine (TrimSpace text) \<or> length fields < 3 then None
           else
             let currentVersion =
                   firstNonEmpty
                     [strategyExact installedPackages (fields ! 0),
                      strategyStripped installedPackages (fields ! 0),
                      strategyScan installedPackages keyOrder (fields ! 0),
                      strategyCommand commandOutput packageManager (fields ! 0)]
             in if fields ! 0 \<noteq> [] \<and> currentVersion \<noteq> [] \<and> fields ! 1 \<noteq> [] then
                  Some \<lparr>Name = fields ! 0, Description = [], CurrentVersion = currentVersion,
                        AvailableVersion = fields ! 1, NeedsUpdate = True,
                        IsSecurityUpdate = Contains (ToLower (fields ! 2)) ''security''\<rparr>
                else None)"
    using assms(2)
    by (simp add: parseUpgradableLine_def Let_def
        resolveCurrentVersion_strategies [OF assms(1), symmetric])
next
  have "(\<lambda>x. case (case x of (n, line) \<Rightarrow>
                parseUpgradableLine commandOutput packageManager installedPackages
                  (keyOrders n) line) of None \<Rightarrow> [] | Some y \<Rightarrow> [y]) =
        (\<lambda>(n, line). case parseUpgradableLine commandOutput packageManager installedPackages
                  (keyOrders n) line of None \<Rightarrow> [] | Some pkg \<Rightarrow> [pkg])"
    by (rule ext) (simp split: prod.splits)
  then show "DNFManager_parseUpgradablePackages commandOutput keyOrders output packageManager
            installedPackages =
          concat (map (\<lambda>(n, line).
                         case parseUpgradableLine commandOutput packageManager
                                installedPackages (keyOrders n) line of
                           None \<Rightarrow> []
                         | Some pkg \<Rightarrow> [pkg])
                    (enumerate 0 (ScannerLines output)))"
    by (simp add: DNFManager_parseUpgradablePackages_def map_filter_concat)
qed

theorem parseUpgradablePackages_resolution_witness:
  "rangeOrder [''bash.x86_64'' \<mapsto> ''5.1-6''] [''bash.x86_64'']
   \<and> isBannerLine (TrimSpace ''bash 5.2-1 updates-security'') = False
   \<and> Fields (TrimSpace ''bash 5.2-1 updates-security'') = [''bash'', ''5.2-1'', ''updates-security'']
   \<and> strategyExact [''bash.x86_64'' \<mapsto> ''5.1-6''] ''bash'' = []
   \<and> strategyStripped [''bash.x86_64'' \<mapsto> ''5.1-6''] ''bash'' = []
   \<and> strategyScan [''bash.x86_64'' \<mapsto> ''5.1-6''] [''bash.x86_64''] ''bash'' = ''5.1-6''
   \<and> parseUpgradableLine noCommand ''dnf'' [''bash.x86_64'' \<mapsto> ''5.1-6''] [''bash.x86_64'']
        ''bash 5.2-1 updates-security'' =
       Some \<lparr>Name = ''bash'', Description = [], CurrentVersion = ''5.1-6'',
             AvailableVersion = ''5.2-1'', NeedsUpdate = True, IsSecurityUpdate = True\<rparr>
   \<and> rangeOrder (Map.empty :: string \<rightharpoonup> string) []
   \<and> strategyCommand exampleListInstalled ''dnf'' ''bash'' = ''5.1-6''
   \<and> parseUpgradableLine exampleListInstalled ''dnf'' Map.empty []
        ''bash 5.2-1 updates-security'' =
       Some \<lparr>Name = ''bash'', Description = [], CurrentVersion = ''5.1-6'',
             AvailableVersion = ''5.2-1'', NeedsUpdate = True, IsSecurityUpdate = True\<rparr>
   \<and> parseUpgradableLine noCommand ''dnf'' Map.empty [] ''bash 5.2-1 updates-security'' = None"
proof -
  let ?m = "[''bash.x86_64'' \<mapsto> ''5.1-6'']"
  let ?l = "''bash 5.2-1 updates-security''"
  let ?f = "[''bash'', ''5.2-1'', ''updates-security'']"
  have r: "rangeOrder ?m [''bash.x86_64'']"
    by (simp add: rangeOrder_def)
  have r0: "rangeOrder (Map.empty :: string \<rightharpoonup> string) []"
    by (simp add: rangeOrder_def)
  have b: "isBannerLine (TrimSpace ?l) = False"
    by code_simp
  have f: "Fields (TrimSpace ?l) = ?f"
    by code_simp
  have n: "(length ?f < 3) = False"
    by simp
  have i0: "?f ! 0 = ''bash''" and i1: "?f ! 1 = ''5.2-1''" and i2: "?f ! 2 = ''updates-security''"
    by simp_all
  have sec: "Contains (ToLower ''updates-security'') ''security'' = True"
    by code_simp
  have a1: "strategyExact ?m ''bash'' = []"
    by code_simp
  have a2: "strategyStripped ?m ''bash'' = []"
    by code_simp
  have a3: "strategyScan ?m [''bash.x86_64''] ''bash'' = ''5.1-6''"
    by code_simp
  have e4: "strategyCommand exampleListInstalled ''dnf'' ''bash'' = ''5.1-6''"
    by code_simp
  have v1: "firstNonEmpty
      [strategyExact ?m ''bash'', strategyStripped ?m ''bash'',
       strategyScan ?m [''bash.x86_64''] ''bash'', strategyCommand noCommand ''dnf'' ''bash''] =
      ''5.1-6''"
    by code_simp
  have v2: "firstNonEmpty
      [strategyExact Map.empty ''bash'', strategyStripped Map.empty ''bash'',
       strategyScan Map.empty [] ''bash'', strategyCommand exampleListInstalled ''dnf'' ''bash''] =
      ''5.1-6''"
    by code_simp
  have v3: "firstNonEmpty
      [strategyExact Map.empty ''bash'', strategyStripped Map.empty ''bash'',
       strategyScan Map.empty [] ''bash'', strategyCommand noCommand ''dnf'' ''bash''] = []"
    by code_simp
  have p1: "parseUpgradableLine noCommand ''dnf'' ?m [''bash.x86_64''] ?l =
      Some \<lparr>Name = ''bash'', Description = [], CurrentVersion = ''5.1-6'',
            AvailableVersion = ''5.2-1'', NeedsUpdate = True, IsSecurityUpdate = True\<rparr>"
    unfolding parseUpgradablePackages_resolution [OF r f, THEN conjunct1] b n i0 i1 i2 v1 sec
      Let_def
    by simp
  have p2: "parseUpgradableLine exampleListInstalled ''dnf'' Map.empty [] ?l =
      Some \<lparr>Name = ''bash'', Description = [], CurrentVersion = ''5.1-6'',
            AvailableVersion = ''5.2-1'', NeedsUpdate = True, IsSecurityUpdate = True\<rparr>"
    unfolding parseUpgradablePackages_resolution [OF r0 f, THEN conjunct1] b n i0 i1 i2 v2 sec
      Let_def
    by simp
  have p3: "parseUpgradableLine noCommand ''dnf'' Map.empty [] ?l = None"
    unfolding parseUpgradablePackages_resolution [OF r0 f, THEN conjunct1] b n i0 i1 i2 v3
      Let_def
    by simp
  show ?thesis
    by (intro conjI r b f a1 a2 a3 p1 r0 e4 p2 p3)
qed

text \<open>
  Claim C8 as stated fails where the first line of the command's output that contains the
  name has no second token: read as the claim words it, the last strategy finds nothing
  and the candidate is dropped, but the code goes on to the next such line, takes its
  second token and emits the candidate.
\<close>

theorem parseUpgradablePackages_command_counterexample:
  "strategyCommandAsStated wrappedListInstalled ''dnf'' ''zsh'' = []
   \<and> firstNonEmpty
        [strategyExact Map.empty ''zsh'', strategyStripped Map.empty ''zsh'',
         strategyScan Map.empty [] ''zsh'',
         strategyCommandAsStated wrappedListInstalled ''dnf'' ''zsh''] = []
   \<and> parseUpgradableLine wrappedListInstalled ''dnf'' Map.empty [] ''zsh 5.9-1 updates'' =
       Some \<lparr>Name = ''zsh'', Description = [], CurrentVersion = ''5.8-9'',
             AvailableVersion = ''5.9-1'', NeedsUpdate = True, IsSecurityUpdate = False\<rparr>"
  by code_simp

end
